theory Spec2Isabelle
  imports Complex_Main "HOL-Library.AList"
begin

section \<open>Python values and exceptions\<close>

text \<open>
  The exceptions the modelled code raises. Every \<^verbatim>\<open>raise\<close>, failed \<^verbatim>\<open>assert\<close>,
  missing dictionary key and division by zero of the sources is a value \<open>Inl e\<close> of the
  result type \<open>py_error + 'a\<close>.
\<close>

datatype py_error =
    KeyError string
  | TypeError
  | AttributeError
  | ValueError string
  | AssertionError string
  | ZeroDivisionError
  | OSError string
  | NotAllNumeric "string list"
  | NaNFound
  | ColumnsMismatch "string set"
  | ColumnsOrder

section \<open>torchlight/nn/tools.py: AverageMeter\<close>

text \<open>
  \<^verbatim>\<open>
  class AverageMeter(object):
      def __init__(self):
          self.val = 0
          self.sum = 0
          self.count = 0
          self.avg_mom = 0.98
          self.avg_loss_mom = 0.
      def update(self, val):
          self.val = val
          self.count += 1
          self.sum += val * self.count
          self.avg_loss_mom = self.avg_loss_mom * self.avg_mom + val * (1 - self.avg_mom)
      @property
      def avg(self):
          return self.sum / self.count
  \<close>
  Numbers are modelled as exact reals (the arithmetic of the formulas, without the
  rounding of Python floats); \<open>count\<close> only ever counts up from 0, so it is a \<open>nat\<close>.
  The field \<^verbatim>\<open>sum\<close> is called \<open>sum_acc\<close>, since \<open>sum\<close> is a constant of HOL.
\<close>

record AverageMeter =
  val :: real
  sum_acc :: real
  count :: nat
  avg_mom :: real
  avg_loss_mom :: real

definition AverageMeter_init :: AverageMeter where
  "AverageMeter_init =
     \<lparr>val = 0, sum_acc = 0, count = 0, avg_mom = 98 / 100, avg_loss_mom = 0\<rparr>"

definition update :: "AverageMeter \<Rightarrow> real \<Rightarrow> AverageMeter" where
  "update m v =
     m\<lparr>val := v,
       count := count m + 1,
       sum_acc := sum_acc m + v * real (count m + 1),
       avg_loss_mom := avg_loss_mom m * avg_mom m + v * (1 - avg_mom m)\<rparr>"

definition avg :: "AverageMeter \<Rightarrow> py_error + real" where
  "avg m = (if count m = 0 then Inl ZeroDivisionError else Inr (sum_acc m / real (count m)))"

text \<open>The meter after a sequence of \<^verbatim>\<open>update\<close> calls on a fresh instance, in order.\<close>

definition meter_after :: "real list \<Rightarrow> AverageMeter" where
  "meter_after vs = foldl update AverageMeter_init vs"

text \<open>The sum of the values, each weighted by its 1-based position.\<close>

definition index_weighted_sum :: "real list \<Rightarrow> real" where
  "index_weighted_sum vs = (\<Sum>i<length vs. real (i + 1) * vs ! i)"

section \<open>torchlite/learner/cores.py: ClassifierCore\<close>

text \<open>
  The model, the criterion and the optimizer are objects of the tensor framework. Their
  state (parameters, gradients, optimizer moments) is a value \<open>'w\<close>, and the framework
  calls the core makes are functions on it, fields of the core as they are attributes of
  the Python object: \<open>model_forward\<close> is \<^verbatim>\<open>self.model.forward(*inputs)\<close> and \<open>crit\<close> is
  \<^verbatim>\<open>self.crit(logits, targets)\<close> followed by \<^verbatim>\<open>loss.item()\<close>; \<open>optim_zero_grad\<close>,
  \<open>loss_backward\<close> and \<open>optim_step\<close> are the three calls of the training branch.
  \<open>optim_calls\<close> is instrumentation: the framework calls made so far, in order.
  \<open>logs\<close> is the dictionary \<^verbatim>\<open>self.logs\<close> with its insertion order; \<^verbatim>\<open>tensor_tools.AverageMeter\<close>
  is the class above.
\<close>

datatype optim_call = ZeroGrad | Backward real | Step

record ('w, 'x, 't, 'y) ClassifierCore =
  model_forward :: "'w \<Rightarrow> 'x \<Rightarrow> 'y"
  crit :: "'y \<Rightarrow> 't option \<Rightarrow> real"
  optim_zero_grad :: "'w \<Rightarrow> 'w"
  loss_backward :: "'w \<Rightarrow> 'x \<Rightarrow> 't option \<Rightarrow> 'w"
  optim_step :: "'w \<Rightarrow> 'w"
  params :: 'w
  optim_calls :: "optim_call list"
  logs :: "(string \<times> (string \<times> real) list) list"
  avg_meter :: AverageMeter

definition on_new_epoch ::
  "('w, 'x, 't, 'y) ClassifierCore \<Rightarrow> ('w, 'x, 't, 'y) ClassifierCore" where
  "on_new_epoch core = core\<lparr>logs := [], avg_meter := AverageMeter_init\<rparr>"

definition get_logs ::
  "('w, 'x, 't, 'y) ClassifierCore \<Rightarrow> (string \<times> (string \<times> real) list) list" where
  "get_logs core = logs core"

text \<open>
  \<^verbatim>\<open>
  def on_forward_batch(self, step, inputs, targets=None):
      logits = self.model.forward(*inputs)
      if step != "prediction":
          loss = self.crit(logits, targets)
          self.avg_meter.update(loss.item())
          self.logs.update({"batch_logs": {"loss": loss.item()}})
          if step == "training":
              self.optim.zero_grad()
              loss.backward()
              self.optim.step()
              self.logs.update({"epoch_logs": {"train loss": self.avg_meter.avg}})
          else:
              self.logs.update({"epoch_logs": {"valid loss": self.avg_meter.avg}})
      return logits
  \<close>
  The result is the returned logits and the core after the call.
\<close>

definition log_epoch ::
  "string \<Rightarrow> ('w, 'x, 't, 'y) ClassifierCore \<Rightarrow> py_error + ('w, 'x, 't, 'y) ClassifierCore" where
  "log_epoch key core =
     (case avg (avg_meter core) of
        Inl e \<Rightarrow> Inl e
      | Inr a \<Rightarrow> Inr (core\<lparr>logs := AList.update ''epoch_logs'' [(key, a)] (logs core)\<rparr>))"

definition on_forward_batch ::
  "('w, 'x, 't, 'y) ClassifierCore \<Rightarrow> string \<Rightarrow> 'x \<Rightarrow> 't option
     \<Rightarrow> py_error + ('y \<times> ('w, 'x, 't, 'y) ClassifierCore)" where
  "on_forward_batch core step inputs targets =
     (let logits = model_forward core (params core) inputs in
      if step \<noteq> ''prediction'' then
        (let loss = crit core logits targets;
             core1 = core\<lparr>avg_meter := update (avg_meter core) loss\<rparr>;
             core2 = core1\<lparr>logs := AList.update ''batch_logs'' [(''loss'', loss)] (logs core1)\<rparr>
         in if step = ''training'' then
              (let core3 = core2\<lparr>params :=
                             optim_step core2
                               (loss_backward core2 (optim_zero_grad core2 (params core2))
                                  inputs targets),
                           optim_calls := optim_calls core2 @ [ZeroGrad, Backward loss, Step]\<rparr>
               in case log_epoch ''train loss'' core3 of
                    Inl e \<Rightarrow> Inl e
                  | Inr core4 \<Rightarrow> Inr (logits, core4))
            else
              (case log_epoch ''valid loss'' core2 of
                 Inl e \<Rightarrow> Inl e
               | Inr core4 \<Rightarrow> Inr (logits, core4)))
      else Inr (logits, core))"

text \<open>A small concrete core, used to run the definitions: the framework state is the
  number of optimizer steps taken, the logits are the input plus that number, and the
  loss is the distance to the target.\<close>

definition toy_core :: "(nat, real, real, real) ClassifierCore" where
  "toy_core =
     \<lparr>model_forward = (\<lambda>w x. x + real w),
      crit = (\<lambda>y t. case t of None \<Rightarrow> 0 | Some t' \<Rightarrow> \<bar>y - t'\<bar>),
      optim_zero_grad = (\<lambda>w. w),
      loss_backward = (\<lambda>w x t. w),
      optim_step = Suc,
      params = 0,
      optim_calls = [],
      logs = [],
      avg_meter = AverageMeter_init\<rparr>"

section \<open>torchlight/nn/models/srgan.py: SRGAN\<close>

text \<open>
  \<^verbatim>\<open>
  def _optimize(self, model, optim, loss, retain_graph=False):
      model.zero_grad()
      loss.backward(retain_graph=retain_graph)
      optim.step()

  def forward(self, data, target):
      gen_img = self.netG(data)
      d_real_out = self.netD(target).mean()
      d_fake_out = self.netD(gen_img).mean()
      d_loss = 1 - d_real_out + d_fake_out
      # TODO don't optimize in val/test pass
      self._optimize(self.netD, self.netD_optim, d_loss, retain_graph=True)
      g_loss = self.generator_loss(d_fake_out, gen_img, target)
      self._optimize(self.netG, self.netG_optim, g_loss)
      return gen_img, d_real_out, d_fake_out
  \<close>
  As for the classifier core, the framework's state (the parameters of both networks,
  their gradients, the optimizers' state) is a value \<open>'w\<close> and the framework calls are
  functions on it, fields of the module. \<open>netD\<close> gives the discriminator's scores, one per
  sample of the batch. \<open>torch_calls\<close> is instrumentation: the framework calls made, in
  order, each \<open>LossBackward\<close> with the value of the loss it differentiates and its
  \<^verbatim>\<open>retain_graph\<close> flag. The leading underscore of \<^verbatim>\<open>_optimize\<close> is dropped.
\<close>

datatype net = NetD | NetG

datatype torch_call = ModelZeroGrad net | LossBackward real bool | OptimizerStep net

record ('w, 'x, 'img) SRGAN =
  netG :: "'w \<Rightarrow> 'x \<Rightarrow> 'img"
  netD :: "'w \<Rightarrow> 'img \<Rightarrow> real list"
  generator_loss :: "real \<Rightarrow> 'img \<Rightarrow> 'img \<Rightarrow> real"
  zero_grad :: "net \<Rightarrow> 'w \<Rightarrow> 'w"
  backward :: "real \<Rightarrow> bool \<Rightarrow> 'w \<Rightarrow> 'w"
  step_optim :: "net \<Rightarrow> 'w \<Rightarrow> 'w"
  weights :: 'w
  torch_calls :: "torch_call list"

text \<open>\<^verbatim>\<open>Tensor.mean()\<close> of a vector of scores. On an empty batch torch gives nan, which
  the reals do not have; HOL's \<open>x / 0 = 0\<close> stands there, and nothing below rests on it.\<close>

definition tensor_mean :: "real list \<Rightarrow> real" where
  "tensor_mean xs = sum_list xs / real (length xs)"

definition optimize ::
  "net \<Rightarrow> net \<Rightarrow> real \<Rightarrow> bool \<Rightarrow> ('w, 'x, 'img) SRGAN \<Rightarrow> ('w, 'x, 'img) SRGAN" where
  "optimize model optim loss retain_graph s =
     s\<lparr>weights := step_optim s optim (backward s loss retain_graph (zero_grad s model (weights s))),
       torch_calls := torch_calls s @
         [ModelZeroGrad model, LossBackward loss retain_graph, OptimizerStep optim]\<rparr>"

definition SRGAN_forward ::
  "('w, 'x, 'img) SRGAN \<Rightarrow> 'x \<Rightarrow> 'img \<Rightarrow> ('img \<times> real \<times> real) \<times> ('w, 'x, 'img) SRGAN" where
  "SRGAN_forward s data target =
     (let gen_img = netG s (weights s) data;
          d_real_out = tensor_mean (netD s (weights s) target);
          d_fake_out = tensor_mean (netD s (weights s) gen_img);
          d_loss = 1 - d_real_out + d_fake_out;
          s1 = optimize NetD NetD d_loss True s;
          g_loss = generator_loss s d_fake_out gen_img target;
          s2 = optimize NetG NetG g_loss False s1
      in ((gen_img, d_real_out, d_fake_out), s2))"

text \<open>A small concrete module, used to run the definitions: the framework state counts
  the optimizer steps of the discriminator and of the generator; an image is a number.\<close>

definition toy_srgan :: "(nat \<times> nat, real, real) SRGAN" where
  "toy_srgan =
     \<lparr>netG = (\<lambda>w x. 2 * x),
      netD = (\<lambda>w img. [img / 4, img / 4]),
      generator_loss = (\<lambda>d_fake gen_img target. 1 - d_fake + \<bar>gen_img - target\<bar>),
      zero_grad = (\<lambda>n w. w),
      backward = (\<lambda>loss retain w. w),
      step_optim = (\<lambda>n (d, g). case n of NetD \<Rightarrow> (Suc d, g) | NetG \<Rightarrow> (d, Suc g)),
      weights = (0, 0),
      torch_calls = []\<rparr>"

section \<open>Values of the callback protocol\<close>

text \<open>
  A module of the framework, as far as checkpointing sees it: the name of its class
  (\<^verbatim>\<open>model.__class__.__name__\<close>) and its state dictionary, an opaque blob \<open>'b\<close>.
\<close>

record 'b nn_module =
  class_name :: string
  state_dict :: 'b

text \<open>
  The values a log dictionary holds: None, strings (\<^verbatim>\<open>"step"\<close>), numbers (losses),
  nested dictionaries (\<^verbatim>\<open>"epoch_logs"\<close>, \<^verbatim>\<open>"models"\<close>) and modules. A dictionary is an
  association list in insertion order, which is the order \<^verbatim>\<open>items()\<close> iterates in.
\<close>

datatype 'b pyval =
    PyNone
  | PyStr string
  | PyNum real
  | PyDict "(string \<times> 'b pyval) list"
  | PyModule "'b nn_module"

type_synonym 'b pydict = "(string \<times> 'b pyval) list"

text \<open>Python's truth value of an object, as \<^verbatim>\<open>not v\<close> tests it.\<close>

fun truthy :: "'b pyval \<Rightarrow> bool" where
  "truthy PyNone = False"
| "truthy (PyStr s) = (s \<noteq> [])"
| "truthy (PyNum x) = (x \<noteq> 0)"
| "truthy (PyDict d) = (d \<noteq> [])"
| "truthy (PyModule m) = True"

text \<open>\<^verbatim>\<open>logs[k]\<close>, where \<^verbatim>\<open>logs\<close> may be the default None of the hook's signature.\<close>

definition getitem :: "'b pydict option \<Rightarrow> string \<Rightarrow> py_error + 'b pyval" where
  "getitem lg k =
     (case lg of
        None \<Rightarrow> Inl TypeError
      | Some d \<Rightarrow> (case map_of d k of None \<Rightarrow> Inl (KeyError k) | Some v \<Rightarrow> Inr v))"

section \<open>train_callbacks.py: ReduceLROnPlateau\<close>

text \<open>
  The class is the same in torchlite/torch/train_callbacks.py and in
  torchlight/nn/train_callbacks.py:
  \<^verbatim>\<open>
  def on_epoch_end(self, epoch, logs=None):
      step = logs["step"]
      if step == 'training':
          for k, v in logs.items():
              if self.loss_step == "valid":
                  if k == 'val_loss':
                      if not v:
                          raise ValueError("ReduceLROnPlateau: No validation loss has been found")
                      self.lr_sch.step(v, epoch)
              else:
                  if k == 'train_loss':
                      self.lr_sch.step(v, epoch)
  \<close>
  The wrapped scheduler of the framework is represented by the calls made to it:
  \<open>lr_sch\<close> lists the arguments of every \<^verbatim>\<open>self.lr_sch.step(v, epoch)\<close>, in order.
\<close>

record 'b ReduceLROnPlateau =
  loss_step :: string
  lr_sch :: "('b pyval \<times> int) list"

definition ReduceLROnPlateau_init :: "string \<Rightarrow> 'b ReduceLROnPlateau" where
  "ReduceLROnPlateau_init ls = \<lparr>loss_step = ls, lr_sch = []\<rparr>"

definition lr_sch_step :: "'b pyval \<Rightarrow> int \<Rightarrow> 'b ReduceLROnPlateau \<Rightarrow> 'b ReduceLROnPlateau" where
  "lr_sch_step v epoch cb = cb\<lparr>lr_sch := lr_sch cb @ [(v, epoch)]\<rparr>"

fun ReduceLROnPlateau_items ::
  "'b ReduceLROnPlateau \<Rightarrow> int \<Rightarrow> 'b pydict \<Rightarrow> py_error + 'b ReduceLROnPlateau" where
  "ReduceLROnPlateau_items cb epoch [] = Inr cb"
| "ReduceLROnPlateau_items cb epoch ((k, v) # kvs) =
     (if loss_step cb = ''valid'' then
        (if k = ''val_loss'' then
           (if \<not> truthy v then
              Inl (ValueError ''ReduceLROnPlateau: No validation loss has been found'')
            else ReduceLROnPlateau_items (lr_sch_step v epoch cb) epoch kvs)
         else ReduceLROnPlateau_items cb epoch kvs)
      else
        (if k = ''train_loss'' then ReduceLROnPlateau_items (lr_sch_step v epoch cb) epoch kvs
         else ReduceLROnPlateau_items cb epoch kvs))"

definition ReduceLROnPlateau_on_epoch_end ::
  "'b ReduceLROnPlateau \<Rightarrow> int \<Rightarrow> 'b pydict option \<Rightarrow> py_error + 'b ReduceLROnPlateau" where
  "ReduceLROnPlateau_on_epoch_end cb epoch lg =
     (case getitem lg ''step'' of
        Inl e \<Rightarrow> Inl e
      | Inr step \<Rightarrow>
          if step = PyStr ''training'' then
            (case lg of None \<Rightarrow> Inl TypeError
             | Some d \<Rightarrow> ReduceLROnPlateau_items cb epoch d)
          else Inr cb)"

section \<open>train_callbacks.py: ModelSaverCallback\<close>

text \<open>
  The disk: the regular files, by path, each holding a serialized blob. \<open>saved\<close> is
  instrumentation: the path and the blob of every \<^verbatim>\<open>torch.save\<close> call, in order. \<^verbatim>\<open>torch.save\<close> is taken
  to succeed; \<^verbatim>\<open>torch.load\<close> fails on a path that is not a regular file.
\<close>

record 'b disk =
  files :: "string \<rightharpoonup> 'b"
  saved :: "(string \<times> 'b) list"

definition empty_disk :: "'b disk" where
  "empty_disk = \<lparr>files = Map.empty, saved = []\<rparr>"

definition torch_save :: "'b \<Rightarrow> string \<Rightarrow> 'b disk \<Rightarrow> 'b disk" where
  "torch_save blob path d = d\<lparr>files := (files d)(path \<mapsto> blob), saved := saved d @ [(path, blob)]\<rparr>"

definition torch_load :: "'b disk \<Rightarrow> string \<Rightarrow> py_error + 'b" where
  "torch_load d path = (case files d path of None \<Rightarrow> Inl (OSError path) | Some blob \<Rightarrow> Inr blob)"

definition os_path_isfile :: "'b disk \<Rightarrow> string \<Rightarrow> bool" where
  "os_path_isfile d path = (files d path \<noteq> None)"

text \<open>\<^verbatim>\<open>os.path.join(a, b)\<close> of posixpath, for two components.\<close>

definition os_path_join :: "string \<Rightarrow> string \<Rightarrow> string" where
  "os_path_join a b =
     (if b \<noteq> [] \<and> hd b = CHR ''/'' then b
      else if a = [] \<or> last a = CHR ''/'' then a @ b
      else a @ ''/'' @ b)"

text \<open>\<^verbatim>\<open>"{}".format(epoch)\<close>: the decimal numeral of an integer.\<close>

definition digit_char :: "nat \<Rightarrow> char" where
  "digit_char d = ''0123456789'' ! d"

fun str_nat :: "nat \<Rightarrow> string" where
  "str_nat n = (if n < 10 then [digit_char n] else str_nat (n div 10) @ [digit_char (n mod 10)])"

declare str_nat.simps [simp del]

definition str_int :: "int \<Rightarrow> string" where
  "str_int i = (if i < 0 then CHR ''-'' # str_nat (nat (- i)) else str_nat (nat i))"

record ModelSaverCallback =
  to_dir :: string
  epochs :: int
  every_n_epoch :: int

text \<open>
  torchlite/torch/train_callbacks.py:
  \<^verbatim>\<open>
  def on_epoch_end(self, epoch, logs=None):
      step = logs["step"]
      if step == 'training':
          if epoch % self.every_n_epoch == 0 or epoch == self.epochs:
              for k, m in logs['models'].items():
                  torch.save(m.state_dict(), os.path.join(self.to_dir, k + "_epoch-{}".format(epoch) + ".pth"))
                  # Erase the last default model
                  torch.save(m.state_dict(), os.path.join(self.to_dir, k + ".pth"))
  \<close>
\<close>

fun save_models :: "string \<Rightarrow> int \<Rightarrow> 'b pydict \<Rightarrow> 'b disk \<Rightarrow> py_error + 'b disk" where
  "save_models dir epoch [] d = Inr d"
| "save_models dir epoch ((k, m) # kms) d =
     (case m of
        PyModule md \<Rightarrow>
          save_models dir epoch kms
            (torch_save (state_dict md) (os_path_join dir (k @ ''.pth''))
               (torch_save (state_dict md)
                  (os_path_join dir (k @ ''_epoch-'' @ str_int epoch @ ''.pth'')) d))
      | _ \<Rightarrow> Inl AttributeError)"

definition ModelSaverCallback_on_epoch_end ::
  "ModelSaverCallback \<Rightarrow> int \<Rightarrow> 'b pydict option \<Rightarrow> 'b disk \<Rightarrow> py_error + 'b disk" where
  "ModelSaverCallback_on_epoch_end cb epoch lg d =
     (case getitem lg ''step'' of
        Inl e \<Rightarrow> Inl e
      | Inr step \<Rightarrow>
          if step = PyStr ''training'' then
            (if every_n_epoch cb = 0 then Inl ZeroDivisionError
             else if epoch mod every_n_epoch cb = 0 \<or> epoch = epochs cb then
               (case getitem lg ''models'' of
                  Inl e \<Rightarrow> Inl e
                | Inr (PyDict kms) \<Rightarrow> save_models (to_dir cb) epoch kms d
                | Inr _ \<Rightarrow> Inl AttributeError)
             else Inr d)
          else Inr d)"

text \<open>
  torchlight/nn/train_callbacks.py:
  \<^verbatim>\<open>
  def on_epoch_end(self, epoch, logs=None):
      step = logs["step"]
      if step == 'training':
          if epoch % self.every_n_epoch == 0 or epoch == self.epochs:
              for k, m in logs['models'].items():
                  torch.save(m.state_dict(), os.path.join(self.to_dir, k + ".pth"))
  \<close>
\<close>

fun torchlight_save_models :: "string \<Rightarrow> 'b pydict \<Rightarrow> 'b disk \<Rightarrow> py_error + 'b disk" where
  "torchlight_save_models dir [] d = Inr d"
| "torchlight_save_models dir ((k, m) # kms) d =
     (case m of
        PyModule md \<Rightarrow>
          torchlight_save_models dir kms
            (torch_save (state_dict md) (os_path_join dir (k @ ''.pth'')) d)
      | _ \<Rightarrow> Inl AttributeError)"

definition torchlight_ModelSaverCallback_on_epoch_end ::
  "ModelSaverCallback \<Rightarrow> int \<Rightarrow> 'b pydict option \<Rightarrow> 'b disk \<Rightarrow> py_error + 'b disk" where
  "torchlight_ModelSaverCallback_on_epoch_end cb epoch lg d =
     (case getitem lg ''step'' of
        Inl e \<Rightarrow> Inl e
      | Inr step \<Rightarrow>
          if step = PyStr ''training'' then
            (if every_n_epoch cb = 0 then Inl ZeroDivisionError
             else if epoch mod every_n_epoch cb = 0 \<or> epoch = epochs cb then
               (case getitem lg ''models'' of
                  Inl e \<Rightarrow> Inl e
                | Inr (PyDict kms) \<Rightarrow> torchlight_save_models (to_dir cb) kms d
                | Inr _ \<Rightarrow> Inl AttributeError)
             else Inr d)
          else Inr d)"

text \<open>
  torchlite/torch/train_callbacks.py:
  \<^verbatim>\<open>
  @staticmethod
  def restore_models(models, from_dir, load_with_cpu=False):
      i = 0
      for model in models:
          file = os.path.join(from_dir, model.__class__.__name__ + ".pth")
          if os.path.isfile(file):
              if load_with_cpu:
                  state_dict = torch.load(file, map_location='cpu')
              else:
                  state_dict = torch.load(file)
              model.load_state_dict(state_dict)
              i += 1
      assert i == len(models), "Not all models were restored. Please check that your passed models and files match"
      return models
  \<close>
  The loop returns the models as it leaves them and the counter \<^verbatim>\<open>i\<close>.
\<close>

fun restore_loop ::
  "'b disk \<Rightarrow> string \<Rightarrow> bool \<Rightarrow> 'b nn_module list \<Rightarrow> nat
     \<Rightarrow> py_error + ('b nn_module list \<times> nat)" where
  "restore_loop d from_dir load_with_cpu [] i = Inr ([], i)"
| "restore_loop d from_dir load_with_cpu (model # models) i =
     (let file = os_path_join from_dir (class_name model @ ''.pth'') in
      if os_path_isfile d file then
        (case (if load_with_cpu then torch_load d file else torch_load d file) of
           Inl e \<Rightarrow> Inl e
         | Inr sd \<Rightarrow>
             (case restore_loop d from_dir load_with_cpu models (i + 1) of
                Inl e \<Rightarrow> Inl e
              | Inr (ms, j) \<Rightarrow> Inr (model\<lparr>state_dict := sd\<rparr> # ms, j)))
      else
        (case restore_loop d from_dir load_with_cpu models i of
           Inl e \<Rightarrow> Inl e
         | Inr (ms, j) \<Rightarrow> Inr (model # ms, j)))"

definition not_all_restored :: string where
  "not_all_restored =
     ''Not all models were restored. Please check that your passed models and files match''"

definition restore_models ::
  "'b disk \<Rightarrow> 'b nn_module list \<Rightarrow> string \<Rightarrow> bool \<Rightarrow> py_error + 'b nn_module list" where
  "restore_models d models from_dir load_with_cpu =
     (case restore_loop d from_dir load_with_cpu models 0 of
        Inl e \<Rightarrow> Inl e
      | Inr (ms, i) \<Rightarrow>
          if i = length models then Inr ms else Inl (AssertionError not_all_restored))"

text \<open>
  torchlight/nn/train_callbacks.py:
  \<^verbatim>\<open>
  @staticmethod
  def restore_model(models, from_dir):
      i = 0
      for model in models:
          file = os.path.join(from_dir, model.__class__.__name__ + ".pth")
          if os.path.isfile(file):
              model.load_state_dict(torch.load(from_dir))
              i += 1
      assert i+1 == len(models), "Not all models were restored. Please check that your passed models and files match"
  \<close>
  The function returns None; the model returns the models as the call leaves them.
\<close>

fun restore_model_loop ::
  "'b disk \<Rightarrow> string \<Rightarrow> 'b nn_module list \<Rightarrow> nat \<Rightarrow> py_error + ('b nn_module list \<times> nat)" where
  "restore_model_loop d from_dir [] i = Inr ([], i)"
| "restore_model_loop d from_dir (model # models) i =
     (let file = os_path_join from_dir (class_name model @ ''.pth'') in
      if os_path_isfile d file then
        (case torch_load d from_dir of
           Inl e \<Rightarrow> Inl e
         | Inr sd \<Rightarrow>
             (case restore_model_loop d from_dir models (i + 1) of
                Inl e \<Rightarrow> Inl e
              | Inr (ms, j) \<Rightarrow> Inr (model\<lparr>state_dict := sd\<rparr> # ms, j)))
      else
        (case restore_model_loop d from_dir models i of
           Inl e \<Rightarrow> Inl e
         | Inr (ms, j) \<Rightarrow> Inr (model # ms, j)))"

definition restore_model ::
  "'b disk \<Rightarrow> 'b nn_module list \<Rightarrow> string \<Rightarrow> py_error + 'b nn_module list" where
  "restore_model d models from_dir =
     (case restore_model_loop d from_dir models 0 of
        Inl e \<Rightarrow> Inl e
      | Inr (ms, i) \<Rightarrow>
          if i + 1 = length models then Inr ms else Inl (AssertionError not_all_restored))"

section \<open>torchlight/nn/train_callbacks.py: TrainCallback and TrainCallbackList\<close>

text \<open>
  A hook of a callback is called with an index (the epoch or the batch; nothing for the
  train hooks) and the logs dictionary. It may read and change the dictionary and
  whatever else it can reach (its own attributes, the optimizer, the disk), which is the
  state \<open>'st\<close>; it may return a value \<open>'r\<close> (None for the hooks of the sources) or raise.
  The hook of the model takes the dictionary and the state and gives them back as the
  call leaves them.
\<close>

type_synonym ('a, 'r, 'v, 'st) hook =
  "'a \<Rightarrow> (string \<times> 'v) list \<Rightarrow> 'st \<Rightarrow> py_error + ('r option \<times> (string \<times> 'v) list \<times> 'st)"

record ('r, 'v, 'st) TrainCallback =
  on_epoch_begin :: "(int, 'r, 'v, 'st) hook"
  on_epoch_end :: "(int, 'r, 'v, 'st) hook"
  on_batch_begin :: "(int, 'r, 'v, 'st) hook"
  on_batch_end :: "(int, 'r, 'v, 'st) hook"
  on_train_begin :: "(unit, 'r, 'v, 'st) hook"
  on_train_end :: "(unit, 'r, 'v, 'st) hook"

text \<open>The base class: every hook is \<^verbatim>\<open>pass\<close>.\<close>

definition pass :: "('a, 'r, 'v, 'st) hook" where
  "pass a l st = Inr (None, l, st)"

definition TrainCallback_base :: "('r, 'v, 'st) TrainCallback" where
  "TrainCallback_base =
     \<lparr>on_epoch_begin = pass, on_epoch_end = pass, on_batch_begin = pass,
      on_batch_end = pass, on_train_begin = pass, on_train_end = pass\<rparr>"

text \<open>ReduceLROnPlateau as a subclass of TrainCallback: it overrides \<^verbatim>\<open>on_epoch_end\<close>; the
  state its hooks work on is the callback object itself.\<close>

definition ReduceLROnPlateau_callback :: "('r, 'b pyval, 'b ReduceLROnPlateau) TrainCallback" where
  "ReduceLROnPlateau_callback =
     TrainCallback_base
       \<lparr>on_epoch_end := (\<lambda>epoch l cb.
          case ReduceLROnPlateau_on_epoch_end cb epoch (Some l) of
            Inl e \<Rightarrow> Inl e
          | Inr cb' \<Rightarrow> Inr (None, l, cb'))\<rparr>"

text \<open>
  \<^verbatim>\<open>
  class TrainCallbackList(object):
      def __init__(self, callbacks=None, queue_length=10):
          callbacks = callbacks or []
          self.callbacks = [c for c in callbacks]
          self.queue_length = queue_length

      def append(self, callback):
          assert isinstance(callback, TrainCallback), ...
          self.callbacks.append(callback)

      def on_epoch_end(self, epoch, logs=None):
          logs = logs or {}
          for callback in self.callbacks:
              callback.on_epoch_end(epoch, logs)
  \<close>
  and the same for the other five hooks. The loop is \<open>fan_out\<close>. Its result says
  whether a callback raised, what the dictionary and the state are afterwards, and, as
  instrumentation, which calls were made: for each the position of the callback in
  \<^verbatim>\<open>self.callbacks\<close>, the index and the dictionary it was called with, and the state
  it started in. The dictionary is one object shared by all the calls, so each callback
  is handed it as the one before left it.
\<close>

record ('r, 'v, 'st) TrainCallbackList =
  callbacks :: "('r, 'v, 'st) TrainCallback list"
  queue_length :: int

definition TrainCallbackList_init ::
  "('r, 'v, 'st) TrainCallback list option \<Rightarrow> int \<Rightarrow> ('r, 'v, 'st) TrainCallbackList" where
  "TrainCallbackList_init cbs ql =
     \<lparr>callbacks = (case cbs of None \<Rightarrow> [] | Some cs \<Rightarrow> cs), queue_length = ql\<rparr>"

definition append_callback ::
  "('r, 'v, 'st) TrainCallbackList \<Rightarrow> ('r, 'v, 'st) TrainCallback \<Rightarrow> ('r, 'v, 'st) TrainCallbackList" where
  "append_callback cbl cb = cbl\<lparr>callbacks := callbacks cbl @ [cb]\<rparr>"

record ('a, 'v, 'st) invocation =
  position :: nat
  index_arg :: 'a
  logs_arg :: "(string \<times> 'v) list"
  state_before :: 'st

record ('a, 'v, 'st) notification =
  raised :: "py_error option"
  logs_after :: "(string \<times> 'v) list"
  state_after :: 'st
  invoked :: "('a, 'v, 'st) invocation list"

fun fan_out ::
  "('a, 'r, 'v, 'st) hook list \<Rightarrow> nat \<Rightarrow> 'a \<Rightarrow> (string \<times> 'v) list \<Rightarrow> 'st
     \<Rightarrow> ('a, 'v, 'st) notification" where
  "fan_out [] i a l st = \<lparr>raised = None, logs_after = l, state_after = st, invoked = []\<rparr>"
| "fan_out (h # hs) i a l st =
     (let call = \<lparr>position = i, index_arg = a, logs_arg = l, state_before = st\<rparr> in
      case h a l st of
        Inl e \<Rightarrow> \<lparr>raised = Some e, logs_after = l, state_after = st, invoked = [call]\<rparr>
      | Inr (ret, l', st') \<Rightarrow>
          (let r = fan_out hs (Suc i) a l' st' in r\<lparr>invoked := call # invoked r\<rparr>))"

text \<open>\<^verbatim>\<open>logs = logs or {}\<close>: None and the empty dictionary both give a new empty one.\<close>

definition logs_or_empty :: "(string \<times> 'v) list option \<Rightarrow> (string \<times> 'v) list" where
  "logs_or_empty lg = (case lg of None \<Rightarrow> [] | Some l \<Rightarrow> if l = [] then [] else l)"

definition TrainCallbackList_on_epoch_begin ::
  "('r, 'v, 'st) TrainCallbackList \<Rightarrow> int \<Rightarrow> (string \<times> 'v) list option \<Rightarrow> 'st
     \<Rightarrow> (int, 'v, 'st) notification" where
  "TrainCallbackList_on_epoch_begin cbl epoch lg st =
     fan_out (map on_epoch_begin (callbacks cbl)) 0 epoch (logs_or_empty lg) st"

definition TrainCallbackList_on_epoch_end ::
  "('r, 'v, 'st) TrainCallbackList \<Rightarrow> int \<Rightarrow> (string \<times> 'v) list option \<Rightarrow> 'st
     \<Rightarrow> (int, 'v, 'st) notification" where
  "TrainCallbackList_on_epoch_end cbl epoch lg st =
     fan_out (map on_epoch_end (callbacks cbl)) 0 epoch (logs_or_empty lg) st"

definition TrainCallbackList_on_batch_begin ::
  "('r, 'v, 'st) TrainCallbackList \<Rightarrow> int \<Rightarrow> (string \<times> 'v) list option \<Rightarrow> 'st
     \<Rightarrow> (int, 'v, 'st) notification" where
  "TrainCallbackList_on_batch_begin cbl batch lg st =
     fan_out (map on_batch_begin (callbacks cbl)) 0 batch (logs_or_empty lg) st"

definition TrainCallbackList_on_batch_end ::
  "('r, 'v, 'st) TrainCallbackList \<Rightarrow> int \<Rightarrow> (string \<times> 'v) list option \<Rightarrow> 'st
     \<Rightarrow> (int, 'v, 'st) notification" where
  "TrainCallbackList_on_batch_end cbl batch lg st =
     fan_out (map on_batch_end (callbacks cbl)) 0 batch (logs_or_empty lg) st"

definition TrainCallbackList_on_train_begin ::
  "('r, 'v, 'st) TrainCallbackList \<Rightarrow> (string \<times> 'v) list option \<Rightarrow> 'st
     \<Rightarrow> (unit, 'v, 'st) notification" where
  "TrainCallbackList_on_train_begin cbl lg st =
     fan_out (map on_train_begin (callbacks cbl)) 0 () (logs_or_empty lg) st"

definition TrainCallbackList_on_train_end ::
  "('r, 'v, 'st) TrainCallbackList \<Rightarrow> (string \<times> 'v) list option \<Rightarrow> 'st
     \<Rightarrow> (unit, 'v, 'st) notification" where
  "TrainCallbackList_on_train_end cbl lg st =
     fan_out (map on_train_end (callbacks cbl)) 0 () (logs_or_empty lg) st"

text \<open>
  What it means that the loop over the hooks \<open>hs\<close>, started with index \<open>a\<close>, dictionary
  \<open>l\<close> and state \<open>st\<close>, called the callbacks once each in registration order:
  the calls made are those of the callbacks at positions \<open>0, 1, 2, \<dots>\<close> without gap or
  repetition, every call got the index \<open>a\<close>, the first call got \<open>l\<close> and \<open>st\<close>, and every
  later call got the dictionary and the state as the call before it left them.
\<close>

definition hook_effect ::
  "('a, 'r, 'v, 'st) hook \<Rightarrow> ('a, 'v, 'st) invocation \<Rightarrow> py_error + ((string \<times> 'v) list \<times> 'st)" where
  "hook_effect h c = map_sum id snd (h (index_arg c) (logs_arg c) (state_before c))"

definition called_in_order ::
  "('a, 'r, 'v, 'st) hook list \<Rightarrow> 'a \<Rightarrow> (string \<times> 'v) list \<Rightarrow> 'st
     \<Rightarrow> ('a, 'v, 'st) invocation list \<Rightarrow> bool" where
  "called_in_order hs a l st calls \<longleftrightarrow>
     length calls \<le> length hs
     \<and> map position calls = [0..<length calls]
     \<and> list_all (\<lambda>c. index_arg c = a) calls
     \<and> (calls = [] \<or> (logs_arg (hd calls) = l \<and> state_before (hd calls) = st))
     \<and> list_all (\<lambda>k. hook_effect (hs ! k) (calls ! k)
                       = Inr (logs_arg (calls ! Suc k), state_before (calls ! Suc k)))
          [0..<length calls - 1]"

text \<open>
  What the loop does in full: the calls are made in order. When the result says that
  nothing was raised, every registered callback was called, the last call returned
  normally, and the result holds the dictionary and the state as the last call left them
  (as they were given, when there is no callback). When the result says that \<open>e\<close> was
  raised, the last call made is the one that raised \<open>e\<close>, the callbacks after it were
  not called, and the result holds the dictionary and the state that call started with
  (the model does not follow what a call changes before it raises).
\<close>

definition notifies_all ::
  "('a, 'r, 'v, 'st) hook list \<Rightarrow> 'a \<Rightarrow> (string \<times> 'v) list \<Rightarrow> 'st
     \<Rightarrow> ('a, 'v, 'st) notification \<Rightarrow> bool" where
  "notifies_all hs a l st r \<longleftrightarrow>
     called_in_order hs a l st (invoked r)
     \<and> (case raised r of
          None \<Rightarrow> length (invoked r) = length hs
            \<and> (if invoked r = [] then logs_after r = l \<and> state_after r = st
                else hook_effect (hs ! (length (invoked r) - 1)) (last (invoked r))
                       = Inr (logs_after r, state_after r))
        | Some e \<Rightarrow> invoked r \<noteq> []
            \<and> hook_effect (hs ! (length (invoked r) - 1)) (last (invoked r)) = Inl e
            \<and> logs_after r = logs_arg (last (invoked r))
            \<and> state_after r = state_before (last (invoked r)))"

text \<open>The hook \<open>h\<close> with its return value replaced by \<open>v\<close>.\<close>

definition returning :: "'r option \<Rightarrow> ('a, 'r, 'v, 'st) hook \<Rightarrow> ('a, 'r, 'v, 'st) hook" where
  "returning v h a l st = (case h a l st of Inl e \<Rightarrow> Inl e | Inr (ret, l', st') \<Rightarrow> Inr (v, l', st'))"

text \<open>A list of two callbacks, used to run the definitions: a ReduceLROnPlateau and,
  appended to it, a callback that overrides nothing.\<close>

definition two_callbacks :: "(unit, nat pyval, nat ReduceLROnPlateau) TrainCallbackList" where
  "two_callbacks =
     append_callback (TrainCallbackList_init (Some [ReduceLROnPlateau_callback]) 10)
       TrainCallback_base"

text \<open>A list with a ReduceLROnPlateau as its only callback.\<close>

definition only_callback :: "(unit, nat pyval, nat ReduceLROnPlateau) TrainCallbackList" where
  "only_callback = TrainCallbackList_init (Some [ReduceLROnPlateau_callback]) 10"

text \<open>The dictionary \<^verbatim>\<open>logs['models']\<close> for the named modules \<open>kms\<close>, and the path
  \<^verbatim>\<open>os.path.join(dir, name + ".pth")\<close> both callbacks and the restore build.\<close>

definition as_models :: "(string \<times> 'b nn_module) list \<Rightarrow> 'b pydict" where
  "as_models kms = map (\<lambda>(k, md). (k, PyModule md)) kms"

definition checkpoint_path :: "string \<Rightarrow> string \<Rightarrow> string" where
  "checkpoint_path dir name = os_path_join dir (name @ ''.pth'')"

section \<open>torchlite/pandas/tabular_encoder.py: BaseEncoder\<close>

text \<open>
  A DataFrame, as far as the encoder looks at it: its columns in order, each with a
  label, whether its dtype is numeric (\<^verbatim>\<open>is_numeric_dtype\<close>: integers, floats, booleans)
  and its cells, a number, a string, a boolean or a missing value. A label may occur
  more than once, as it does in pandas when a feature is selected twice.
\<close>

datatype cell = Num real | Str string | Flag bool | NaN

record series =
  is_numeric_dtype :: bool
  cells :: "cell list"

type_synonym DataFrame = "(string \<times> series) list"

definition df_columns :: "DataFrame \<Rightarrow> string list" where
  "df_columns df = map fst df"

text \<open>\<^verbatim>\<open>X[[feat for feat in all_feat if feat in X.columns]].copy()\<close>: for every label of
  the list, in the order of the list, every column of \<open>X\<close> that has the label.\<close>

definition select_columns :: "DataFrame \<Rightarrow> string list \<Rightarrow> DataFrame" where
  "select_columns X all_feat =
     concat (map (\<lambda>feat. filter (\<lambda>(col, s). col = feat) X)
               (filter (\<lambda>feat. feat \<in> set (df_columns X)) all_feat))"

text \<open>
  The encoder object. \<open>tfs_missing\<close>, \<open>tfs_num_cols\<close> and \<open>tfs_cols\<close> are the entries
  \<^verbatim>\<open>"missing"\<close>, \<^verbatim>\<open>"num_cols"\<close> and \<^verbatim>\<open>"cols"\<close> of \<^verbatim>\<open>self.tfs_list\<close>, None while the key is
  absent (\<^verbatim>\<open>transform\<close> reads of \<^verbatim>\<open>"missing"\<close> only its keys). The two methods that
  BaseEncoder leaves to its subclasses are fields; they change the frame in place, so
  the model has them return it. \<open>numeric_scaler\<close>, when present, stands for the statement
  \<^verbatim>\<open>df[num_cols] = self.numeric_scaler.transform(df[num_cols].astype(np.float32).values)\<close>.
\<close>

record encoder =
  categorical_vars :: "string list"
  numeric_vars :: "string list"
  fix_missing :: bool
  numeric_scaler :: "(string list \<Rightarrow> DataFrame \<Rightarrow> py_error + DataFrame) option"
  tfs_missing :: "string list option"
  tfs_num_cols :: "string list option"
  tfs_cols :: "string list option"
  perform_na_transform :: "DataFrame \<Rightarrow> py_error + DataFrame"
  perform_categ_transform :: "DataFrame \<Rightarrow> py_error + DataFrame"

text \<open>
  \<^verbatim>\<open>
  def _get_all_non_numeric(self, df):
      non_num_cols = []
      for col in df.columns:
          if not is_numeric_dtype(df[col]):
              non_num_cols.append(col)
      return non_num_cols
  \<close>
\<close>

text \<open>
  \<^verbatim>\<open>is_numeric_dtype(df[col])\<close>: when one column has the label, \<^verbatim>\<open>df[col]\<close> is that
  column and the answer is its dtype's; when several columns have it, \<^verbatim>\<open>df[col]\<close> is a
  frame, which has no dtype, and the answer is False.
\<close>

definition is_numeric_dtype_at :: "DataFrame \<Rightarrow> string \<Rightarrow> bool" where
  "is_numeric_dtype_at df col =
     (case filter (\<lambda>(c, s). c = col) df of
        [(c, s)] \<Rightarrow> is_numeric_dtype s
      | _ \<Rightarrow> False)"

definition get_all_non_numeric :: "DataFrame \<Rightarrow> string list" where
  "get_all_non_numeric df = filter (\<lambda>col. \<not> is_numeric_dtype_at df col) (df_columns df)"

text \<open>
  \<^verbatim>\<open>
  def _check_integrity(self, df):
      diff = list(set(self.tfs_list["cols"]) ^ set(df.columns))
      if len(diff) > 0:
          raise Exception("Columns in fitted and transformed DataFrame do not match: {}".format(diff))
      if list(self.tfs_list["cols"]) == list(df.columns):
          return True
      raise Exception("Columns in EncoderBlueprint and DataFrame do not have the same order")
  \<close>
\<close>

definition check_integrity :: "encoder \<Rightarrow> DataFrame \<Rightarrow> py_error + bool" where
  "check_integrity enc df =
     (case tfs_cols enc of
        None \<Rightarrow> Inl (KeyError ''cols'')
      | Some cols \<Rightarrow>
          (let diff = (set cols - set (df_columns df)) \<union> (set (df_columns df) - set cols)
           in if diff \<noteq> {} then Inl (ColumnsMismatch diff)
              else if cols = df_columns df then Inr True
              else Inl ColumnsOrder))"

text \<open>
  \<^verbatim>\<open>nan_ratio = df.isnull().sum() / len(df)\<close>, one ratio per column; on a frame without
  rows the division gives nan, which is None here. \<^verbatim>\<open>nan_ratio.all()\<close> is the truth of
  every ratio, and nan counts as true.
\<close>

definition nan_ratio :: "series \<Rightarrow> real option" where
  "nan_ratio s =
     (if cells s = [] then None
      else Some (real (length (filter (\<lambda>c. c = NaN) (cells s))) / real (length (cells s))))"

definition nan_ratio_all :: "DataFrame \<Rightarrow> bool" where
  "nan_ratio_all df =
     list_all (\<lambda>(col, s). case nan_ratio s of None \<Rightarrow> True | Some r \<Rightarrow> r \<noteq> 0) df"

text \<open>
  \<^verbatim>\<open>
  def transform(self, X):
      all_feat = self.categorical_vars + self.numeric_vars
      missing_col = [col for col in X.columns if col not in all_feat]
      df = X[[feat for feat in all_feat if feat in X.columns]].copy()
      if self.fix_missing:
          print("Warning: Missing columns: {}, dropping them...".format(missing_col))
          print("--- Fixing NA values ({}) ---".format(len(self.tfs_list["missing"])))
          self._perform_na_transform(df)
          ...
      self._perform_categ_transform(df)
      if self.numeric_scaler is not None:
          num_cols = self.tfs_list["num_cols"]
          df[num_cols] = self.numeric_scaler.transform(df[num_cols].astype(np.float32).values)
      non_num_cols = self._get_all_non_numeric(df)
      nan_ratio = df.isnull().sum() / len(df)
      ...
      if len(non_num_cols) > 0:
          raise Exception("Not all columns are numeric: {}.".format(non_num_cols))
      if self.fix_missing and nan_ratio.all() > 0:
          raise Exception("NaN has been found!")
      self._check_integrity(df)
      return df
  \<close>
  The method is modelled in two parts: \<open>encoded\<close> is its first half, up to the scaling,
  which gives the frame after encoding; \<open>transform\<close> is the whole method.
\<close>

definition encoded :: "encoder \<Rightarrow> DataFrame \<Rightarrow> py_error + DataFrame" where
  "encoded enc X =
     (let all_feat = categorical_vars enc @ numeric_vars enc;
          df = select_columns X all_feat
      in case (if fix_missing enc then
                 (case tfs_missing enc of
                    None \<Rightarrow> Inl (KeyError ''missing'')
                  | Some missing \<Rightarrow> perform_na_transform enc df)
               else Inr df) of
           Inl e \<Rightarrow> Inl e
         | Inr df1 \<Rightarrow>
             (case perform_categ_transform enc df1 of
                Inl e \<Rightarrow> Inl e
              | Inr df2 \<Rightarrow>
                  (case numeric_scaler enc of
                     None \<Rightarrow> Inr df2
                   | Some scale \<Rightarrow>
                       (case tfs_num_cols enc of
                          None \<Rightarrow> Inl (KeyError ''num_cols'')
                        | Some num_cols \<Rightarrow> scale num_cols df2))))"

definition transform :: "encoder \<Rightarrow> DataFrame \<Rightarrow> py_error + DataFrame" where
  "transform enc X =
     (case encoded enc X of
        Inl e \<Rightarrow> Inl e
      | Inr df \<Rightarrow>
          (let non_num_cols = get_all_non_numeric df
           in if length non_num_cols > 0 then Inl (NotAllNumeric non_num_cols)
              else if fix_missing enc \<and> nan_ratio_all df then Inl NaNFound
              else (case check_integrity enc df of
                      Inl e \<Rightarrow> Inl e
                    | Inr ok \<Rightarrow> Inr df)))"

text \<open>
  TreeEncoder, the subclass for tree models:
  \<^verbatim>\<open>
  def _perform_na_transform(self, df):
      for col, median in self.tfs_list["missing"].items():
          df[col + '_na'] = df[col].isnull()
          df[col].fillna(median, inplace=True)

  def _perform_categ_transform(self, df):
      for col, vals in self.tfs_list["categ_cols"].items():
          # "n/a" category will be encoded as 0
          df[col] = df[col].astype(pd.api.types.CategoricalDtype(categories=vals, ordered=True)).cat.codes + 1
  \<close>
  A cell's category code is its position in \<^verbatim>\<open>vals\<close>, and -1 for a missing value or
  a value that is no category. The two methods are modelled for a frame in which the
  label they work on occurs once; they serve the concrete runs below, and no statement
  about \<open>transform\<close> rests on them.
\<close>

fun TreeEncoder_perform_na_transform ::
  "(string \<times> real) list \<Rightarrow> DataFrame \<Rightarrow> py_error + DataFrame" where
  "TreeEncoder_perform_na_transform [] df = Inr df"
| "TreeEncoder_perform_na_transform ((col, median) # missing) df =
     (case map_of df col of
        None \<Rightarrow> Inl (KeyError col)
      | Some s \<Rightarrow>
          TreeEncoder_perform_na_transform missing
            (AList.update col
               (s\<lparr>cells := map (\<lambda>c. if c = NaN then Num median else c) (cells s)\<rparr>)
               (AList.update (col @ ''_na'')
                  \<lparr>is_numeric_dtype = True, cells = map (\<lambda>c. Flag (c = NaN)) (cells s)\<rparr> df)))"

fun cat_code :: "cell list \<Rightarrow> cell \<Rightarrow> int" where
  "cat_code [] c = -1"
| "cat_code (v # vals) c =
     (if c \<noteq> NaN \<and> v = c then 0
      else (let i = cat_code vals c in if i < 0 then -1 else i + 1))"

fun TreeEncoder_perform_categ_transform ::
  "(string \<times> cell list) list \<Rightarrow> DataFrame \<Rightarrow> py_error + DataFrame" where
  "TreeEncoder_perform_categ_transform [] df = Inr df"
| "TreeEncoder_perform_categ_transform ((col, vals) # categ_cols) df =
     (case map_of df col of
        None \<Rightarrow> Inl (KeyError col)
      | Some s \<Rightarrow>
          TreeEncoder_perform_categ_transform categ_cols
            (AList.update col
               \<lparr>is_numeric_dtype = True,
                cells = map (\<lambda>c. Num (real_of_int (cat_code vals c + 1))) (cells s)\<rparr> df))"

text \<open>
  A fitted TreeEncoder and two frames, used to run the definitions. The encoder was
  fitted (no scaler, no fixing of missing values) on the categorical column \<^verbatim>\<open>city\<close>
  and the columns \<^verbatim>\<open>age\<close> and \<^verbatim>\<open>name\<close> given as numeric variables. \<open>people\<close> has all
  three, \<^verbatim>\<open>name\<close> holding strings; \<open>ages\<close> lacks \<^verbatim>\<open>name\<close>.
\<close>

definition tree_encoder :: encoder where
  "tree_encoder =
     \<lparr>categorical_vars = [''city''],
      numeric_vars = [''age'', ''name''],
      fix_missing = False,
      numeric_scaler = None,
      tfs_missing = None,
      tfs_num_cols = Some [''age''],
      tfs_cols = Some [''city'', ''age'', ''name''],
      perform_na_transform = TreeEncoder_perform_na_transform [],
      perform_categ_transform =
        TreeEncoder_perform_categ_transform [(''city'', [Str ''Lyon'', Str ''Paris''])]\<rparr>"

definition people :: DataFrame where
  "people =
     [(''name'', \<lparr>is_numeric_dtype = False, cells = [Str ''Ada'', Str ''Bob'']\<rparr>),
      (''age'', \<lparr>is_numeric_dtype = True, cells = [Num 36, Num 41]\<rparr>),
      (''city'', \<lparr>is_numeric_dtype = False, cells = [Str ''Paris'', NaN]\<rparr>)]"

definition ages :: DataFrame where
  "ages =
     [(''age'', \<lparr>is_numeric_dtype = True, cells = [Num 36, Num 41]\<rparr>),
      (''city'', \<lparr>is_numeric_dtype = False, cells = [Str ''Paris'', NaN]\<rparr>)]"

text \<open>A TreeEncoder given the feature \<^verbatim>\<open>age\<close> twice, fitted on a frame with the one
  column \<^verbatim>\<open>age\<close>: the fitted frame has that column twice.\<close>

definition age_twice_encoder :: encoder where
  "age_twice_encoder =
     \<lparr>categorical_vars = [],
      numeric_vars = [''age'', ''age''],
      fix_missing = False,
      numeric_scaler = None,
      tfs_missing = None,
      tfs_num_cols = Some [],
      tfs_cols = Some [''age'', ''age''],
      perform_na_transform = TreeEncoder_perform_na_transform [],
      perform_categ_transform = TreeEncoder_perform_categ_transform []\<rparr>"

section \<open>Properties of AverageMeter\<close>

lemma count_foldl_update: "count (foldl update m vs) = count m + length vs"
  by (induction vs arbitrary: m) (simp_all add: update_def)

lemma sum_acc_foldl_update:
  "sum_acc (foldl update m vs) = sum_acc m + (\<Sum>i<length vs. real (count m + i + 1) * vs ! i)"
proof (induction vs arbitrary: m)
  case Nil
  show ?case by simp
next
  case (Cons v vs)
  have "sum_acc (foldl update m (v # vs)) = sum_acc (foldl update (update m v) vs)"
    by simp
  also have "\<dots> = sum_acc (update m v)
      + (\<Sum>i<length vs. real (count (update m v) + i + 1) * vs ! i)"
    by (rule Cons.IH)
  also have "\<dots> = sum_acc m + real (count m + 1) * v
      + (\<Sum>i<length vs. real (count m + Suc i + 1) * (v # vs) ! Suc i)"
    by (simp add: update_def mult.commute)
  also have "\<dots> = sum_acc m + (\<Sum>i<length (v # vs). real (count m + i + 1) * (v # vs) ! i)"
    unfolding length_Cons by (subst sum.lessThan_Suc_shift) simp
  finally show ?case .
qed

lemma count_meter_after: "count (meter_after vs) = length vs"
  by (simp add: meter_after_def count_foldl_update AverageMeter_init_def)

lemma sum_acc_meter_after: "sum_acc (meter_after vs) = index_weighted_sum vs"
  by (simp add: meter_after_def sum_acc_foldl_update AverageMeter_init_def
      index_weighted_sum_def)

lemma meter_after_snoc: "meter_after (vs @ [v]) = update (meter_after vs) v"
  by (simp add: meter_after_def)

lemma avg_meter_after:
  "avg (meter_after vs) =
     (if vs = [] then Inl ZeroDivisionError
      else Inr (index_weighted_sum vs / real (length vs)))"
  by (simp add: avg_def count_meter_after sum_acc_meter_after)

section \<open>Properties of ClassifierCore\<close>

lemma log_epoch_meter_after:
  "avg_meter core = meter_after vs \<Longrightarrow> vs \<noteq> [] \<Longrightarrow>
   log_epoch key core =
     Inr (core\<lparr>logs := AList.update ''epoch_logs''
            [(key, index_weighted_sum vs / real (length vs))] (logs core)\<rparr>)"
  by (simp add: log_epoch_def avg_meter_after)

lemma map_of_update_same: "map_of (AList.update k v al) k = Some v"
  by (simp add: update_conv)

lemma avg_update:
  "avg (update m v) = Inr ((sum_acc m + v * real (count m + 1)) / real (count m + 1))"
  by (simp add: avg_def update_def)

lemma on_forward_batch_training:
  "on_forward_batch core ''training'' inputs targets =
     (let logits = model_forward core (params core) inputs;
          loss = crit core logits targets;
          m = update (avg_meter core) loss
      in Inr (logits,
           core\<lparr>avg_meter := m,
                logs := AList.update ''epoch_logs'' [(''train loss'', sum_acc m / real (count m))]
                          (AList.update ''batch_logs'' [(''loss'', loss)] (logs core)),
                params := optim_step core
                            (loss_backward core (optim_zero_grad core (params core)) inputs targets),
                optim_calls := optim_calls core @ [ZeroGrad, Backward loss, Step]\<rparr>))"
  by (simp add: on_forward_batch_def Let_def log_epoch_def avg_def update_def)

lemma on_forward_batch_validation:
  "step \<noteq> ''training'' \<Longrightarrow> step \<noteq> ''prediction'' \<Longrightarrow>
   on_forward_batch core step inputs targets =
     (let logits = model_forward core (params core) inputs;
          loss = crit core logits targets;
          m = update (avg_meter core) loss
      in Inr (logits,
           core\<lparr>avg_meter := m,
                logs := AList.update ''epoch_logs'' [(''valid loss'', sum_acc m / real (count m))]
                          (AList.update ''batch_logs'' [(''loss'', loss)] (logs core))\<rparr>))"
  by (simp add: on_forward_batch_def Let_def log_epoch_def avg_def update_def)

lemma avg_value_snoc:
  "sum_acc (update (meter_after vs) v) / real (count (update (meter_after vs) v)) =
     index_weighted_sum (vs @ [v]) / real (length vs + 1)"
  using sum_acc_meter_after [of "vs @ [v]"] count_meter_after [of "vs @ [v]"]
  by (simp add: meter_after_snoc)

text \<open>
  C9. After \<open>n \<ge> 1\<close> updates with \<open>v\<^sub>1, \<dots>, v\<^sub>n\<close> on a fresh meter, \<open>avg\<close> is
  \<open>(\<Sum>i. i * v\<^sub>i) / n\<close>: every value is weighted by its 1-based arrival index. On a meter
  with no update \<open>avg\<close> raises ZeroDivisionError. \<open>on_new_epoch\<close> gives the core a fresh
  meter, and a training or validation batch on a core whose meter has seen the losses
  \<open>vs\<close> feeds the batch loss to the meter and writes the index-weighted average of
  \<open>vs\<close> and that loss under "train loss" (training) or "valid loss" (any other step but
  prediction) of \<open>epoch_logs\<close>.
\<close>

theorem C9_avg_is_index_weighted:
  "(vs \<noteq> [] \<longrightarrow> avg (meter_after vs) = Inr (index_weighted_sum vs / real (length vs)))
   \<and> avg (meter_after []) = Inl ZeroDivisionError
   \<and> avg_meter (on_new_epoch core) = meter_after []
   \<and> (avg_meter core = meter_after vs \<and> step \<noteq> ''prediction'' \<longrightarrow>
        (\<exists>core'. on_forward_batch core step inputs targets =
                    Inr (model_forward core (params core) inputs, core')
           \<and> avg_meter core' =
                 meter_after (vs @ [crit core (model_forward core (params core) inputs) targets])
           \<and> map_of (logs core') ''epoch_logs'' =
                 Some [(if step = ''training'' then ''train loss'' else ''valid loss'',
                        index_weighted_sum
                          (vs @ [crit core (model_forward core (params core) inputs) targets])
                        / real (length vs + 1))]))"
proof (intro conjI impI)
  assume "vs \<noteq> []"
  then show "avg (meter_after vs) = Inr (index_weighted_sum vs / real (length vs))"
    by (simp add: avg_meter_after)
next
  show "avg (meter_after []) = Inl ZeroDivisionError"
    by (simp add: avg_meter_after)
next
  show "avg_meter (on_new_epoch core) = meter_after []"
    by (simp add: on_new_epoch_def meter_after_def)
next
  assume a: "avg_meter core = meter_after vs \<and> step \<noteq> ''prediction''"
  show "\<exists>core'. on_forward_batch core step inputs targets =
                    Inr (model_forward core (params core) inputs, core')
           \<and> avg_meter core' =
                 meter_after (vs @ [crit core (model_forward core (params core) inputs) targets])
           \<and> map_of (logs core') ''epoch_logs'' =
                 Some [(if step = ''training'' then ''train loss'' else ''valid loss'',
                        index_weighted_sum
                          (vs @ [crit core (model_forward core (params core) inputs) targets])
                        / real (length vs + 1))]"
  proof (cases "step = ''training''")
    case True
    then show ?thesis
      using a avg_value_snoc [of vs "crit core (model_forward core (params core) inputs) targets"]
      by (simp add: on_forward_batch_training Let_def meter_after_snoc map_of_update_same)
  next
    case False
    then show ?thesis
      using a avg_value_snoc [of vs "crit core (model_forward core (params core) inputs) targets"]
      by (simp add: on_forward_batch_validation Let_def meter_after_snoc map_of_update_same)
  qed
qed

theorem C9_witness:
  "avg (meter_after [2, 4]) = Inr 5
   \<and> (\<exists>core'. on_forward_batch (toy_core\<lparr>avg_meter := meter_after [2, 4]\<rparr>)
                  ''validation'' 1 (Some 4) = Inr (1, core')
        \<and> avg_meter core' = meter_after [2, 4, 3]
        \<and> map_of (logs core') ''epoch_logs'' = Some [(''valid loss'', 19 / 3)])"
proof -
  have "index_weighted_sum [2, 4] = 10" "index_weighted_sum [2, 4, 3] = 19"
    by (simp_all add: index_weighted_sum_def lessThan_Suc eval_nat_numeral)
  then show ?thesis
    using C9_avg_is_index_weighted
      [of "[2, 4]" "toy_core\<lparr>avg_meter := meter_after [2, 4]\<rparr>" "''validation''" 1 "Some 4"]
    by (simp add: toy_core_def)
qed


text \<open>
  C10. A prediction batch returns the logits of the model's forward pass and leaves the
  core as it was: the logs, the average meter, the parameters and the list of optimizer
  calls are unchanged, whatever the targets (None included).
\<close>

theorem C10_prediction_leaves_core_unchanged:
  "on_forward_batch core ''prediction'' inputs targets =
     Inr (model_forward core (params core) inputs, core)"
  by (simp add: on_forward_batch_def)

lemma ClassifierCore_steps_only_when_training:
  assumes "step \<noteq> ''training''"
    and "on_forward_batch core step inputs targets = Inr (logits, core')"
  shows "params core' = params core \<and> optim_calls core' = optim_calls core"
  using assms
  by (auto simp: on_forward_batch_def Let_def log_epoch_def split: if_splits sum.splits)

section \<open>Properties of SRGAN\<close>

lemma optimize_calls:
  "torch_calls (optimize model optim loss retain s) =
     torch_calls s @ [ModelZeroGrad model, LossBackward loss retain, OptimizerStep optim]"
  by (simp add: optimize_def)

text \<open>
  C3. One call of \<open>SRGAN_forward\<close> makes six framework calls, in this order: zero the
  discriminator's gradients, back-propagate the discriminator loss with
  \<^verbatim>\<open>retain_graph=True\<close>, step the discriminator's optimizer; then zero the generator's
  gradients, back-propagate the generator loss (graph not retained), step the
  generator's optimizer. The discriminator update is complete before the generator
  update starts, and the weights after the call are the generator update applied to the
  result of the discriminator update.
\<close>

theorem C3_discriminator_before_generator:
  "\<exists>d_loss g_loss.
     torch_calls (snd (SRGAN_forward s data target)) =
       torch_calls s @
         [ModelZeroGrad NetD, LossBackward d_loss True, OptimizerStep NetD,
          ModelZeroGrad NetG, LossBackward g_loss False, OptimizerStep NetG]
     \<and> weights (snd (SRGAN_forward s data target)) =
         step_optim s NetG (backward s g_loss False (zero_grad s NetG
           (step_optim s NetD (backward s d_loss True (zero_grad s NetD (weights s))))))"
  by (simp add: SRGAN_forward_def Let_def optimize_def)

text \<open>
  C4. The loss handed to the backward pass that precedes the discriminator's optimizer
  step is \<open>1 - mean (D target) + mean (D (G data))\<close>, with both networks at the weights
  the batch started with; the two means are also what the call returns beside the
  generated image.
\<close>

theorem C4_discriminator_loss:
  "take 3 (drop (length (torch_calls s)) (torch_calls (snd (SRGAN_forward s data target)))) =
     [ModelZeroGrad NetD,
      LossBackward (1 - tensor_mean (netD s (weights s) target)
                      + tensor_mean (netD s (weights s) (netG s (weights s) data))) True,
      OptimizerStep NetD]
   \<and> fst (SRGAN_forward s data target) =
       (netG s (weights s) data,
        tensor_mean (netD s (weights s) target),
        tensor_mean (netD s (weights s) (netG s (weights s) data)))"
  by (simp add: SRGAN_forward_def Let_def optimize_def)

text \<open>
  C5. \<open>SRGAN_forward\<close> has no step argument and optimizes on every call: run on the toy
  module as the forward pass of a validation batch, it steps both optimizers and the
  weights change. (The source says so itself: \<^verbatim>\<open># TODO don't optimize in val/test pass\<close>.)
  The classifier core does keep the claim, see \<open>ClassifierCore_steps_only_when_training\<close>.
\<close>

theorem C5_SRGAN_forward_always_optimizes:
  "weights (snd (SRGAN_forward toy_srgan 1 3)) = (1, 1)
   \<and> torch_calls (snd (SRGAN_forward toy_srgan 1 3)) =
       [ModelZeroGrad NetD, LossBackward (3 / 4) True, OptimizerStep NetD,
        ModelZeroGrad NetG, LossBackward (3 / 2) False, OptimizerStep NetG]"
  by (simp add: SRGAN_forward_def Let_def optimize_def toy_srgan_def tensor_mean_def)

section \<open>Properties of ReduceLROnPlateau\<close>

lemma ReduceLROnPlateau_items_no_key:
  "loss_step cb = ''valid'' \<Longrightarrow> ''val_loss'' \<notin> fst ` set d \<Longrightarrow>
   ReduceLROnPlateau_items cb epoch d = Inr cb"
  by (induction d) auto

text \<open>
  C2. A callback built with \<^verbatim>\<open>loss_step="valid"\<close> gets epoch-end logs of the training
  step that hold no \<^verbatim>\<open>val_loss\<close> key: the call returns normally, without an error and
  without a scheduler step. The ValueError is reached only when the key is present with
  a false value.
\<close>

theorem C2_no_val_loss_key_no_error:
  "ReduceLROnPlateau_on_epoch_end (ReduceLROnPlateau_init ''valid'') 1
     (Some [(''step'', PyStr ''training''),
            (''epoch_logs'', PyDict [(''train loss'', PyNum 1)])])
   = Inr (ReduceLROnPlateau_init ''valid'')"
  by (simp add: ReduceLROnPlateau_on_epoch_end_def getitem_def ReduceLROnPlateau_init_def)

section \<open>Properties of ModelSaverCallback\<close>

lemma restore_loop_count:
  "restore_loop d from_dir cpu models i = Inr (ms, j) \<Longrightarrow>
   j = i + length (filter (\<lambda>m. os_path_isfile d (os_path_join from_dir (class_name m @ ''.pth''))) models)"
proof (induction models arbitrary: i ms j)
  case Nil
  then show ?case by simp
next
  case (Cons m models)
  show ?case
  proof (cases "os_path_isfile d (os_path_join from_dir (class_name m @ ''.pth''))")
    case True
    with Cons.prems obtain ms' where "restore_loop d from_dir cpu models (i + 1) = Inr (ms', j)"
      by (auto simp: Let_def split: sum.splits prod.splits if_splits)
    from Cons.IH [OF this] True show ?thesis by simp
  next
    case False
    with Cons.prems obtain ms' where "restore_loop d from_dir cpu models i = Inr (ms', j)"
      by (auto simp: Let_def split: sum.splits prod.splits)
    from Cons.IH [OF this] False show ?thesis by simp
  qed
qed

lemma restore_models_needs_every_file:
  assumes "restore_models d models from_dir cpu = Inr ms"
  shows "list_all (\<lambda>m. os_path_isfile d (os_path_join from_dir (class_name m @ ''.pth''))) models"
proof -
  let ?P = "\<lambda>m. os_path_isfile d (os_path_join from_dir (class_name m @ ''.pth''))"
  from assms obtain j where r: "restore_loop d from_dir cpu models 0 = Inr (ms, j)"
    and j: "j = length models"
    by (auto simp: restore_models_def split: sum.splits prod.splits if_splits)
  from restore_loop_count [OF r] j have "length (filter ?P models) = length models"
    by simp
  then have "filter ?P models = models"
    by (metis filter_True length_filter_less nat_neq_iff)
  then show ?thesis
    by (metis Ball_set filter_id_conv)
qed

lemma restore_models_missing_file:
  assumes "\<not> list_all (\<lambda>m. os_path_isfile d (os_path_join from_dir (class_name m @ ''.pth''))) models"
  shows "\<exists>e. restore_models d models from_dir cpu = Inl e"
  using assms restore_models_needs_every_file [of d models from_dir cpu]
  by (cases "restore_models d models from_dir cpu") auto

text \<open>
  C1. torchlight's \<open>restore_model\<close> asserts \<^verbatim>\<open>i+1 == len(models)\<close>: asked to restore one
  model from a directory that holds no file for it, it counts \<open>i = 0\<close> and returns
  normally, the model untouched. (torchlite's \<open>restore_models\<close> asserts
  \<^verbatim>\<open>i == len(models)\<close> and fails there, see \<open>restore_models_missing_file\<close>.)
\<close>

theorem C1_restore_model_without_file:
  "restore_model empty_disk [\<lparr>class_name = ''Generator'', state_dict = (0::nat)\<rparr>] ''checkpoint''
     = Inr [\<lparr>class_name = ''Generator'', state_dict = 0\<rparr>]"
  by (simp add: restore_model_def empty_disk_def os_path_isfile_def Let_def)

lemma torchlight_save_models_saved:
  "\<exists>d'. torchlight_save_models dir (as_models kms) d = Inr d'
     \<and> saved d' = saved d @ map (\<lambda>(k, md). (checkpoint_path dir k, state_dict md)) kms"
proof (induction kms arbitrary: d)
  case Nil
  show ?case by (simp add: as_models_def)
next
  case (Cons km kms)
  obtain k md where km: "km = (k, md)" by (cases km)
  from Cons.IH [of "torch_save (state_dict md) (os_path_join dir (k @ ''.pth'')) d"]
  show ?case
    unfolding km by (auto simp: as_models_def torch_save_def checkpoint_path_def)
qed

lemma save_models_saved:
  "\<exists>d'. save_models dir epoch (as_models kms) d = Inr d'
     \<and> saved d' = saved d @ concat (map (\<lambda>(k, md).
           [(checkpoint_path dir (k @ ''_epoch-'' @ str_int epoch), state_dict md),
            (checkpoint_path dir k, state_dict md)]) kms)"
proof (induction kms arbitrary: d)
  case Nil
  show ?case by (simp add: as_models_def)
next
  case (Cons km kms)
  obtain k md where km: "km = (k, md)" by (cases km)
  from Cons.IH [of "torch_save (state_dict md) (os_path_join dir (k @ ''.pth''))
      (torch_save (state_dict md) (os_path_join dir (k @ ''_epoch-'' @ str_int epoch @ ''.pth'')) d)"]
  show ?case
    unfolding km by (auto simp: as_models_def torch_save_def checkpoint_path_def)
qed

lemma restore_loop_loaded:
  "restore_loop d from_dir cpu models i = Inr (ms, j) \<Longrightarrow>
   list_all2 (\<lambda>m m'. class_name m' = class_name m \<and>
        (if os_path_isfile d (checkpoint_path from_dir (class_name m))
         then files d (checkpoint_path from_dir (class_name m)) = Some (state_dict m')
         else m' = m)) models ms"
proof (induction models arbitrary: i ms j)
  case Nil
  then show ?case by simp
next
  case (Cons m models)
  show ?case
  proof (cases "os_path_isfile d (os_path_join from_dir (class_name m @ ''.pth''))")
    case True
    with Cons.prems obtain sd ms' where
      ld: "torch_load d (os_path_join from_dir (class_name m @ ''.pth'')) = Inr sd"
      and r: "restore_loop d from_dir cpu models (i + 1) = Inr (ms', j)"
      and ms: "ms = m\<lparr>state_dict := sd\<rparr> # ms'"
      by (auto simp: Let_def split: sum.splits prod.splits if_splits)
    from ld have "files d (os_path_join from_dir (class_name m @ ''.pth'')) = Some sd"
      by (auto simp: torch_load_def split: option.splits)
    with Cons.IH [OF r] True ms show ?thesis
      by (simp add: checkpoint_path_def)
  next
    case False
    with Cons.prems obtain ms' where
      r: "restore_loop d from_dir cpu models i = Inr (ms', j)" and ms: "ms = m # ms'"
      by (auto simp: Let_def split: sum.splits prod.splits)
    with Cons.IH [OF r] False show ?thesis
      by (simp add: checkpoint_path_def)
  qed
qed

lemma restore_models_loaded:
  assumes "restore_models d models from_dir cpu = Inr ms"
  shows "list_all2 (\<lambda>m m'. class_name m' = class_name m \<and>
           files d (checkpoint_path from_dir (class_name m)) = Some (state_dict m')) models ms"
proof -
  from assms obtain j where r: "restore_loop d from_dir cpu models 0 = Inr (ms, j)"
    by (auto simp: restore_models_def split: sum.splits prod.splits if_splits)
  have all: "\<forall>m \<in> set models. os_path_isfile d (checkpoint_path from_dir (class_name m))"
    using restore_models_needs_every_file [OF assms]
    by (simp add: list_all_iff checkpoint_path_def)
  show ?thesis
    by (rule list.rel_mono_strong [OF restore_loop_loaded [OF r]]) (use all in auto)
qed

lemma str_int_3: "str_int 3 = ''3''"
  by (simp add: str_int_def str_nat.simps digit_char_def)

lemma str_int_5: "str_int 5 = ''5''"
  by (simp add: str_int_def str_nat.simps digit_char_def)

text \<open>
  C8. When a checkpoint is saved at the end of an epoch (the step is "training", and
  the epoch is a multiple of \<^verbatim>\<open>every_n_epoch\<close> or the last one), every model named in
  \<^verbatim>\<open>logs['models']\<close> has its state dictionary written to \<^verbatim>\<open><name>.pth\<close> in
  \<^verbatim>\<open>to_dir\<close>. torchlight's callback makes exactly that one write per model, in the order
  of the dictionary. torchlite's callback makes two writes per model: first
  \<^verbatim>\<open><name>_epoch-<epoch>.pth\<close>, then \<^verbatim>\<open><name>.pth\<close>. torchlite's \<open>restore_models\<close>, when it
  succeeds, has given every model the blob of the file \<^verbatim>\<open><class name>.pth\<close> of
  \<^verbatim>\<open>from_dir\<close>.
\<close>

theorem C8_checkpoint_files:
  assumes "map_of lg ''step'' = Some (PyStr ''training'')"
    and "map_of lg ''models'' = Some (PyDict (as_models kms))"
    and "every_n_epoch cb \<noteq> 0"
    and "epoch mod every_n_epoch cb = 0 \<or> epoch = epochs cb"
  shows "(\<exists>d'. torchlight_ModelSaverCallback_on_epoch_end cb epoch (Some lg) d = Inr d'
            \<and> saved d' = saved d @
                 map (\<lambda>(k, md). (checkpoint_path (to_dir cb) k, state_dict md)) kms)
       \<and> (\<exists>d'. ModelSaverCallback_on_epoch_end cb epoch (Some lg) d = Inr d'
            \<and> saved d' = saved d @ concat (map (\<lambda>(k, md).
                 [(checkpoint_path (to_dir cb) (k @ ''_epoch-'' @ str_int epoch), state_dict md),
                  (checkpoint_path (to_dir cb) k, state_dict md)]) kms))
       \<and> (\<forall>ms. restore_models disk models from_dir cpu = Inr ms \<longrightarrow>
             list_all2 (\<lambda>m m'. class_name m' = class_name m \<and>
               files disk (checkpoint_path from_dir (class_name m)) = Some (state_dict m'))
               models ms)"
proof (intro conjI allI impI)
  show "\<exists>d'. torchlight_ModelSaverCallback_on_epoch_end cb epoch (Some lg) d = Inr d'
            \<and> saved d' = saved d @
                 map (\<lambda>(k, md). (checkpoint_path (to_dir cb) k, state_dict md)) kms"
    using assms torchlight_save_models_saved [of "to_dir cb" kms d]
    by (auto simp: torchlight_ModelSaverCallback_on_epoch_end_def getitem_def)
next
  show "\<exists>d'. ModelSaverCallback_on_epoch_end cb epoch (Some lg) d = Inr d'
            \<and> saved d' = saved d @ concat (map (\<lambda>(k, md).
                 [(checkpoint_path (to_dir cb) (k @ ''_epoch-'' @ str_int epoch), state_dict md),
                  (checkpoint_path (to_dir cb) k, state_dict md)]) kms)"
    using assms save_models_saved [of "to_dir cb" epoch kms d]
    by (auto simp: ModelSaverCallback_on_epoch_end_def getitem_def)
next
  fix ms
  assume "restore_models disk models from_dir cpu = Inr ms"
  then show "list_all2 (\<lambda>m m'. class_name m' = class_name m \<and>
               files disk (checkpoint_path from_dir (class_name m)) = Some (state_dict m'))
               models ms"
    by (rule restore_models_loaded)
qed

theorem C8_witness:
  "(\<exists>d'. torchlight_ModelSaverCallback_on_epoch_end
            \<lparr>to_dir = ''checkpoint'', epochs = 10, every_n_epoch = 5\<rparr> 5
            (Some [(''step'', PyStr ''training''),
                   (''models'', PyDict [(''Generator'',
                      PyModule \<lparr>class_name = ''Generator'', state_dict = (7::nat)\<rparr>)])])
            empty_disk = Inr d'
        \<and> saved d' = [(''checkpoint/Generator.pth'', 7)])
   \<and> (\<exists>d'. ModelSaverCallback_on_epoch_end
            \<lparr>to_dir = ''checkpoint'', epochs = 10, every_n_epoch = 5\<rparr> 5
            (Some [(''step'', PyStr ''training''),
                   (''models'', PyDict [(''Generator'',
                      PyModule \<lparr>class_name = ''Generator'', state_dict = (7::nat)\<rparr>)])])
            empty_disk = Inr d'
        \<and> saved d' = [(''checkpoint/Generator_epoch-5.pth'', 7), (''checkpoint/Generator.pth'', 7)])
   \<and> restore_models (torch_save (7::nat) ''checkpoint/Generator.pth'' empty_disk)
        [\<lparr>class_name = ''Generator'', state_dict = 0\<rparr>] ''checkpoint'' False
       = Inr [\<lparr>class_name = ''Generator'', state_dict = 7\<rparr>]
   \<and> list_all2 (\<lambda>m m'. class_name m' = class_name m \<and>
         files (torch_save (7::nat) ''checkpoint/Generator.pth'' empty_disk)
           (checkpoint_path ''checkpoint'' (class_name m)) = Some (state_dict m'))
         [\<lparr>class_name = ''Generator'', state_dict = 0\<rparr>]
         [\<lparr>class_name = ''Generator'', state_dict = 7\<rparr>]"
proof -
  let ?lg = "[(''step'', PyStr ''training''),
              (''models'', PyDict [(''Generator'',
                 PyModule \<lparr>class_name = ''Generator'', state_dict = (7::nat)\<rparr>)])]"
  let ?cb = "\<lparr>to_dir = ''checkpoint'', epochs = 10, every_n_epoch = 5\<rparr>"
  let ?d = "torch_save (7::nat) ''checkpoint/Generator.pth'' empty_disk"
  have r: "restore_models ?d [\<lparr>class_name = ''Generator'', state_dict = 0\<rparr>] ''checkpoint'' False
       = Inr [\<lparr>class_name = ''Generator'', state_dict = 7\<rparr>]"
    by (simp add: restore_models_def Let_def os_path_join_def os_path_isfile_def torch_save_def
        torch_load_def empty_disk_def)
  have h1: "map_of ?lg ''step'' = Some (PyStr ''training'')" by simp
  have h2: "map_of ?lg ''models'' =
      Some (PyDict (as_models [(''Generator'', \<lparr>class_name = ''Generator'', state_dict = (7::nat)\<rparr>)]))"
    by (simp add: as_models_def)
  have h3: "every_n_epoch ?cb \<noteq> 0" by simp
  have h4: "5 mod every_n_epoch ?cb = 0 \<or> 5 = epochs ?cb" by simp
  note T = C8_checkpoint_files [OF h1 h2 h3 h4, of empty_disk ?d
      "[\<lparr>class_name = ''Generator'', state_dict = 0\<rparr>]" "''checkpoint''" False]
  from T r show ?thesis
    by (simp add: checkpoint_path_def os_path_join_def str_int_5 empty_disk_def)
qed

text \<open>
  C8, as stated, fails for torchlite's callback: one save of one model writes two
  blobs, \<^verbatim>\<open>Generator_epoch-3.pth\<close> and \<^verbatim>\<open>Generator.pth\<close>.
\<close>

theorem C8_two_files_per_model:
  "map_sum id saved
     (ModelSaverCallback_on_epoch_end \<lparr>to_dir = ''checkpoint'', epochs = 10, every_n_epoch = 1\<rparr> 3
        (Some [(''step'', PyStr ''training''),
               (''models'', PyDict [(''Generator'',
                   PyModule \<lparr>class_name = ''Generator'', state_dict = (7::nat)\<rparr>)])])
        empty_disk)
   = Inr [(''checkpoint/Generator_epoch-3.pth'', 7), (''checkpoint/Generator.pth'', 7)]"
  by (simp add: ModelSaverCallback_on_epoch_end_def getitem_def empty_disk_def torch_save_def
      os_path_join_def str_int_3)

section \<open>Properties of TrainCallbackList\<close>

lemma fan_out_length: "length (invoked (fan_out hs i a l st)) \<le> length hs"
  by (induction hs arbitrary: i l st) (auto simp: Let_def split: sum.splits)

lemma fan_out_positions:
  "map position (invoked (fan_out hs i a l st)) =
     [i..<i + length (invoked (fan_out hs i a l st))]"
proof (induction hs arbitrary: i l st)
  case Nil
  show ?case by simp
next
  case (Cons h hs)
  show ?case
  proof (cases "h a l st")
    case (Inl e)
    then show ?thesis by (simp add: Let_def)
  next
    case (Inr p)
    obtain ret l' st' where p: "p = (ret, l', st')" by (cases p)
    let ?n = "length (invoked (fan_out hs (Suc i) a l' st'))"
    have "[i..<i + Suc ?n] = i # [Suc i..<Suc i + ?n]"
      by (simp add: upt_conv_Cons del: upt_Suc)
    then show ?thesis
      using Inr p Cons.IH [of "Suc i" l' st'] by (simp add: Let_def del: upt_Suc)
  qed
qed

lemma fan_out_index: "list_all (\<lambda>c. index_arg c = a) (invoked (fan_out hs i a l st))"
  by (induction hs arbitrary: i l st) (auto simp: Let_def split: sum.splits)

lemma fan_out_first:
  "invoked (fan_out hs i a l st) \<noteq> [] \<Longrightarrow>
   logs_arg (hd (invoked (fan_out hs i a l st))) = l \<and>
   state_before (hd (invoked (fan_out hs i a l st))) = st"
  by (cases hs) (auto simp: Let_def split: sum.splits)

lemma fan_out_chain:
  "Suc k < length (invoked (fan_out hs i a l st)) \<Longrightarrow>
   hook_effect (hs ! k) (invoked (fan_out hs i a l st) ! k) =
     Inr (logs_arg (invoked (fan_out hs i a l st) ! Suc k),
          state_before (invoked (fan_out hs i a l st) ! Suc k))"
proof (induction hs arbitrary: i l st k)
  case Nil
  then show ?case by simp
next
  case (Cons h hs)
  show ?case
  proof (cases "h a l st")
    case (Inl e)
    with Cons.prems show ?thesis by (simp add: Let_def)
  next
    case (Inr p)
    obtain ret l' st' where p: "p = (ret, l', st')" by (cases p)
    let ?r = "fan_out hs (Suc i) a l' st'"
    have inv: "invoked (fan_out (h # hs) i a l st) =
        \<lparr>position = i, index_arg = a, logs_arg = l, state_before = st\<rparr> # invoked ?r"
      using Inr p by (simp add: Let_def)
    show ?thesis
    proof (cases k)
      case 0
      with Cons.prems inv have ne: "invoked ?r \<noteq> []" by auto
      from fan_out_first [OF ne] have "logs_arg (hd (invoked ?r)) = l'"
        "state_before (hd (invoked ?r)) = st'" by simp_all
      with ne 0 Inr p show ?thesis
        unfolding inv by (simp add: hook_effect_def hd_conv_nth)
    next
      case (Suc k')
      with Cons.prems inv have "Suc k' < length (invoked ?r)" by simp
      from Cons.IH [OF this] Suc show ?thesis unfolding inv by simp
    qed
  qed
qed

lemma fan_out_raised:
  "(case raised (fan_out hs i a l st) of
      None \<Rightarrow> length (invoked (fan_out hs i a l st)) = length hs
        \<and> (if invoked (fan_out hs i a l st) = []
            then logs_after (fan_out hs i a l st) = l \<and> state_after (fan_out hs i a l st) = st
            else hook_effect (hs ! (length (invoked (fan_out hs i a l st)) - 1))
                   (last (invoked (fan_out hs i a l st)))
                 = Inr (logs_after (fan_out hs i a l st), state_after (fan_out hs i a l st)))
    | Some e \<Rightarrow> invoked (fan_out hs i a l st) \<noteq> []
        \<and> hook_effect (hs ! (length (invoked (fan_out hs i a l st)) - 1))
            (last (invoked (fan_out hs i a l st))) = Inl e
        \<and> logs_after (fan_out hs i a l st) = logs_arg (last (invoked (fan_out hs i a l st)))
        \<and> state_after (fan_out hs i a l st)
            = state_before (last (invoked (fan_out hs i a l st))))"
proof (induction hs arbitrary: i l st)
  case Nil
  show ?case by simp
next
  case (Cons h hs)
  show ?case
  proof (cases "h a l st")
    case (Inl e)
    then show ?thesis by (simp add: Let_def hook_effect_def)
  next
    case (Inr p)
    obtain ret l' st' where p: "p = (ret, l', st')" by (cases p)
    let ?r = "fan_out hs (Suc i) a l' st'"
    have inv: "invoked (fan_out (h # hs) i a l st) =
        \<lparr>position = i, index_arg = a, logs_arg = l, state_before = st\<rparr> # invoked ?r"
      and rz: "raised (fan_out (h # hs) i a l st) = raised ?r"
      and la: "logs_after (fan_out (h # hs) i a l st) = logs_after ?r"
      and sa: "state_after (fan_out (h # hs) i a l st) = state_after ?r"
      using Inr p by (simp_all add: Let_def)
    have nil: "invoked ?r = [] \<Longrightarrow> hs = [] \<and> logs_after ?r = l' \<and> state_after ?r = st'"
      by (cases hs) (auto simp: Let_def split: sum.splits)
    show ?thesis
    proof (cases "invoked ?r = []")
      case True
      with nil have "hs = []" "logs_after ?r = l'" "state_after ?r = st'" by simp_all
      then show ?thesis
        using Inr p by (simp add: Let_def hook_effect_def)
    next
      case False
      then show ?thesis
        using Cons.IH [of "Suc i" l' st'] unfolding inv rz la sa
        by (cases "raised ?r") (auto simp: nth_Cons')
    qed
  qed
qed

lemma fan_out_called_in_order:
  "called_in_order hs a l st (invoked (fan_out hs 0 a l st))"
  unfolding called_in_order_def
  using fan_out_length [of hs 0 a l st] fan_out_positions [of hs 0 a l st]
    fan_out_index [of a hs 0 l st] fan_out_first [of hs 0 a l st]
    fan_out_chain [of _ hs 0 a l st]
  by (auto simp: list_all_iff)

lemma fan_out_notifies_all: "notifies_all hs a l st (fan_out hs 0 a l st)"
  unfolding notifies_all_def
  using fan_out_called_in_order [of hs a l st] fan_out_raised [of hs 0 a l st]
  by simp


lemma called_in_order_nth:
  assumes "called_in_order hs a l st cs"
  shows "k < length cs \<Longrightarrow> position (cs ! k) = k"
    and "k < length cs \<Longrightarrow> index_arg (cs ! k) = a"
    and "cs \<noteq> [] \<Longrightarrow> logs_arg (cs ! 0) = l \<and> state_before (cs ! 0) = st"
    and "Suc k < length cs \<Longrightarrow>
          hook_effect (hs ! k) (cs ! k) = Inr (logs_arg (cs ! Suc k), state_before (cs ! Suc k))"
proof -
  from assms have p: "map position cs = [0..<length cs]"
    and i: "list_all (\<lambda>c. index_arg c = a) cs"
    and f: "cs = [] \<or> (logs_arg (hd cs) = l \<and> state_before (hd cs) = st)"
    and c: "list_all (\<lambda>k. hook_effect (hs ! k) (cs ! k)
                       = Inr (logs_arg (cs ! Suc k), state_before (cs ! Suc k)))
          [0..<length cs - 1]"
    by (simp_all add: called_in_order_def)
  show "k < length cs \<Longrightarrow> position (cs ! k) = k"
  proof -
    assume k: "k < length cs"
    then have "position (cs ! k) = map position cs ! k" by simp
    also have "\<dots> = k" unfolding p using k by simp
    finally show ?thesis .
  qed
  show "k < length cs \<Longrightarrow> index_arg (cs ! k) = a"
    using i by (simp add: list_all_length)
  show "cs \<noteq> [] \<Longrightarrow> logs_arg (cs ! 0) = l \<and> state_before (cs ! 0) = st"
    using f by (simp add: hd_conv_nth)
  show "Suc k < length cs \<Longrightarrow>
          hook_effect (hs ! k) (cs ! k) = Inr (logs_arg (cs ! Suc k), state_before (cs ! Suc k))"
    using c by (simp add: list_all_iff)
qed

lemma called_in_order_same_calls:
  assumes c1: "called_in_order hs a l st cs1" and c2: "called_in_order hs a l st cs2"
  shows "k < length cs1 \<Longrightarrow> k < length cs2 \<Longrightarrow> cs1 ! k = cs2 ! k"
proof (induction k)
  case 0
  then have "cs1 \<noteq> []" "cs2 \<noteq> []" by auto
  with called_in_order_nth(3) [OF c1] called_in_order_nth(3) [OF c2]
  have "logs_arg (cs1 ! 0) = logs_arg (cs2 ! 0)" "state_before (cs1 ! 0) = state_before (cs2 ! 0)"
    by simp_all
  moreover have "position (cs1 ! 0) = position (cs2 ! 0)"
    using called_in_order_nth(1) [OF c1, of 0] called_in_order_nth(1) [OF c2, of 0] 0 by simp
  moreover have "index_arg (cs1 ! 0) = index_arg (cs2 ! 0)"
    using called_in_order_nth(2) [OF c1, of 0] called_in_order_nth(2) [OF c2, of 0] 0 by simp
  ultimately show ?case by simp
next
  case (Suc k)
  then have eq: "cs1 ! k = cs2 ! k" by simp
  have "hook_effect (hs ! k) (cs1 ! k)
      = Inr (logs_arg (cs1 ! Suc k), state_before (cs1 ! Suc k))"
    using called_in_order_nth(4) [OF c1] Suc.prems by simp
  moreover have "hook_effect (hs ! k) (cs2 ! k)
      = Inr (logs_arg (cs2 ! Suc k), state_before (cs2 ! Suc k))"
    using called_in_order_nth(4) [OF c2] Suc.prems by simp
  ultimately have "logs_arg (cs1 ! Suc k) = logs_arg (cs2 ! Suc k)"
    "state_before (cs1 ! Suc k) = state_before (cs2 ! Suc k)"
    using eq by simp_all
  moreover have "position (cs1 ! Suc k) = position (cs2 ! Suc k)"
    using called_in_order_nth(1) [OF c1, of "Suc k"] called_in_order_nth(1) [OF c2, of "Suc k"]
      Suc.prems by simp
  moreover have "index_arg (cs1 ! Suc k) = index_arg (cs2 ! Suc k)"
    using called_in_order_nth(2) [OF c1, of "Suc k"] called_in_order_nth(2) [OF c2, of "Suc k"]
      Suc.prems by simp
  ultimately show ?case by simp
qed

lemma notifies_all_not_shorter:
  assumes n1: "notifies_all hs a l st r1" and n2: "notifies_all hs a l st r2"
  shows "\<not> length (invoked r1) < length (invoked r2)"
proof
  assume less: "length (invoked r1) < length (invoked r2)"
  from n1 n2 have c1: "called_in_order hs a l st (invoked r1)"
    and c2: "called_in_order hs a l st (invoked r2)"
    by (simp_all add: notifies_all_def)
  from c2 have le2: "length (invoked r2) \<le> length hs"
    by (simp add: called_in_order_def)
  show False
  proof (cases "raised r1")
    case None
    with n1 have "length (invoked r1) = length hs" by (simp add: notifies_all_def)
    with less le2 show False by simp
  next
    case (Some e)
    with n1 have ne: "invoked r1 \<noteq> []"
      and ef: "hook_effect (hs ! (length (invoked r1) - 1)) (last (invoked r1)) = Inl e"
      by (simp_all add: notifies_all_def)
    let ?k = "length (invoked r1) - 1"
    from ne have k1: "?k < length (invoked r1)" by simp
    with less have k2: "Suc ?k < length (invoked r2)" by simp
    have "invoked r1 ! ?k = invoked r2 ! ?k"
      using called_in_order_same_calls [OF c1 c2, of ?k] k1 k2 by simp
    moreover have "last (invoked r1) = invoked r1 ! ?k"
      using ne by (simp add: last_conv_nth)
    moreover have "hook_effect (hs ! ?k) (invoked r2 ! ?k)
        = Inr (logs_arg (invoked r2 ! Suc ?k), state_before (invoked r2 ! Suc ?k))"
      using called_in_order_nth(4) [OF c2 k2] .
    ultimately show False using ef by simp
  qed
qed

lemma notifies_all_unique:
  assumes n1: "notifies_all hs a l st r1" and n2: "notifies_all hs a l st r2"
  shows "r1 = r2"
proof -
  from n1 n2 have c1: "called_in_order hs a l st (invoked r1)"
    and c2: "called_in_order hs a l st (invoked r2)"
    by (simp_all add: notifies_all_def)
  have len: "length (invoked r1) = length (invoked r2)"
    using notifies_all_not_shorter [OF n1 n2] notifies_all_not_shorter [OF n2 n1] by simp
  have inv: "invoked r1 = invoked r2"
    by (rule nth_equalityI [OF len]) (use called_in_order_same_calls [OF c1 c2] len in simp)
  have rest: "raised r1 = raised r2 \<and> logs_after r1 = logs_after r2
      \<and> state_after r1 = state_after r2"
    using n1 n2 unfolding notifies_all_def inv
    by (cases "raised r1"; cases "raised r2") (auto split: if_splits)
  with inv show ?thesis by simp
qed

lemma notifies_all_iff: "notifies_all hs a l st r \<longleftrightarrow> r = fan_out hs 0 a l st"
proof
  assume "notifies_all hs a l st r"
  then show "r = fan_out hs 0 a l st"
    by (rule notifies_all_unique) (rule fan_out_notifies_all)
next
  assume "r = fan_out hs 0 a l st"
  then show "notifies_all hs a l st r"
    by (simp add: fan_out_notifies_all)
qed

lemma fan_out_ignores_return_values:
  "fan_out (map (returning v) hs) i a l st = fan_out hs i a l st"
  by (induction hs arbitrary: i l st) (auto simp: Let_def returning_def split: sum.splits)

lemma two_callbacks_eq:
  "callbacks two_callbacks = [ReduceLROnPlateau_callback, TrainCallback_base]"
  by (simp add: two_callbacks_def append_callback_def TrainCallbackList_init_def)

text \<open>
  C6. Each of the six hooks of TrainCallbackList calls the callbacks in registration
  order, each at most once, every one with the same index and with the one logs
  dictionary (the first call gets \<^verbatim>\<open>logs or {}\<close>, each later call gets it as the call
  before left it). When no callback raises, every registered callback is called exactly
  once and the hook returns normally. When a callback raises, it is the last one called,
  also when it is the last or the only one registered: the callbacks registered after it
  are not called and its exception is the outcome of the hook. This describes the
  outcome of a hook completely: \<open>notifies_all\<close> holds of the hook's result and of nothing
  else. What the callbacks return is ignored: replacing their return values changes
  nothing in the outcome.
\<close>

theorem C6_hooks_notify_in_registration_order:
  "(notifies_all (map on_train_begin (callbacks cbl)) () (logs_or_empty lg) st r0
      \<longleftrightarrow> r0 = TrainCallbackList_on_train_begin cbl lg st)
   \<and> (notifies_all (map on_train_end (callbacks cbl)) () (logs_or_empty lg) st r0
      \<longleftrightarrow> r0 = TrainCallbackList_on_train_end cbl lg st)
   \<and> (notifies_all (map on_epoch_begin (callbacks cbl)) n (logs_or_empty lg) st r
      \<longleftrightarrow> r = TrainCallbackList_on_epoch_begin cbl n lg st)
   \<and> (notifies_all (map on_epoch_end (callbacks cbl)) n (logs_or_empty lg) st r
      \<longleftrightarrow> r = TrainCallbackList_on_epoch_end cbl n lg st)
   \<and> (notifies_all (map on_batch_begin (callbacks cbl)) n (logs_or_empty lg) st r
      \<longleftrightarrow> r = TrainCallbackList_on_batch_begin cbl n lg st)
   \<and> (notifies_all (map on_batch_end (callbacks cbl)) n (logs_or_empty lg) st r
      \<longleftrightarrow> r = TrainCallbackList_on_batch_end cbl n lg st)
   \<and> fan_out (map (returning v) hs) 0 a l st = fan_out hs 0 a l st"
  by (simp add: TrainCallbackList_on_train_begin_def TrainCallbackList_on_train_end_def
      TrainCallbackList_on_epoch_begin_def TrainCallbackList_on_epoch_end_def
      TrainCallbackList_on_batch_begin_def TrainCallbackList_on_batch_end_def
      notifies_all_iff fan_out_ignores_return_values)

theorem C6_witness:
  "notifies_all (map on_epoch_end (callbacks two_callbacks)) 1
     [(''step'', PyStr ''training''), (''val_loss'', PyNum (1 / 2))]
     (ReduceLROnPlateau_init ''valid'')
     (TrainCallbackList_on_epoch_end two_callbacks 1
        (Some [(''step'', PyStr ''training''), (''val_loss'', PyNum (1 / 2))])
        (ReduceLROnPlateau_init ''valid''))
   \<and> raised (TrainCallbackList_on_epoch_end two_callbacks 1
        (Some [(''step'', PyStr ''training''), (''val_loss'', PyNum (1 / 2))])
        (ReduceLROnPlateau_init ''valid'')) = None
   \<and> map position (invoked (TrainCallbackList_on_epoch_end two_callbacks 1
        (Some [(''step'', PyStr ''training''), (''val_loss'', PyNum (1 / 2))])
        (ReduceLROnPlateau_init ''valid''))) = [0, 1]
   \<and> state_after (TrainCallbackList_on_epoch_end two_callbacks 1
        (Some [(''step'', PyStr ''training''), (''val_loss'', PyNum (1 / 2))])
        (ReduceLROnPlateau_init ''valid''))
       = \<lparr>loss_step = ''valid'', lr_sch = [(PyNum (1 / 2), 1)]\<rparr>
   \<and> notifies_all (map on_epoch_end (callbacks only_callback)) 1
        [(''step'', PyStr ''training''), (''val_loss'', PyNone)]
        (ReduceLROnPlateau_init ''valid'')
        (TrainCallbackList_on_epoch_end only_callback 1
           (Some [(''step'', PyStr ''training''), (''val_loss'', PyNone)])
           (ReduceLROnPlateau_init ''valid''))
   \<and> raised (TrainCallbackList_on_epoch_end only_callback 1
        (Some [(''step'', PyStr ''training''), (''val_loss'', PyNone)])
        (ReduceLROnPlateau_init ''valid''))
       = Some (ValueError ''ReduceLROnPlateau: No validation loss has been found'')"
proof -
  let ?lg = "[(''step'', PyStr ''training''), (''val_loss'', PyNum (1 / 2))] :: nat pydict"
  let ?none = "[(''step'', PyStr ''training''), (''val_loss'', PyNone)] :: nat pydict"
  let ?raising = "TrainCallbackList_on_epoch_end only_callback 1 (Some ?none)
              (ReduceLROnPlateau_init ''valid'')"
  have lo_none: "logs_or_empty (Some ?none) = ?none"
    by (simp add: logs_or_empty_def)
  have only: "notifies_all (map on_epoch_end (callbacks only_callback)) 1 ?none
          (ReduceLROnPlateau_init ''valid'') ?raising"
    using C6_hooks_notify_in_registration_order
      [of only_callback "Some ?none" "ReduceLROnPlateau_init ''valid''" _ 1 ?raising,
       THEN conjunct2, THEN conjunct2, THEN conjunct2, THEN conjunct1]
    unfolding lo_none by simp
  have only_raised: "raised ?raising
      = Some (ValueError ''ReduceLROnPlateau: No validation loss has been found'')"
    by (simp add: logs_or_empty_def only_callback_def TrainCallbackList_init_def
        TrainCallbackList_on_epoch_end_def
        ReduceLROnPlateau_callback_def TrainCallback_base_def pass_def Let_def
        ReduceLROnPlateau_on_epoch_end_def getitem_def ReduceLROnPlateau_init_def)
  let ?r = "TrainCallbackList_on_epoch_end two_callbacks 1 (Some ?lg)
              (ReduceLROnPlateau_init ''valid'')"
  have lo: "logs_or_empty (Some ?lg) = ?lg"
    by (simp add: logs_or_empty_def)
  have "notifies_all (map on_epoch_end (callbacks two_callbacks)) 1 ?lg
          (ReduceLROnPlateau_init ''valid'') ?r"
    using C6_hooks_notify_in_registration_order
      [of two_callbacks "Some ?lg" "ReduceLROnPlateau_init ''valid''" _ 1 ?r,
       THEN conjunct2, THEN conjunct2, THEN conjunct2, THEN conjunct1]
    unfolding lo by simp
  moreover have "raised ?r = None \<and> map position (invoked ?r) = [0, 1]
      \<and> state_after ?r = \<lparr>loss_step = ''valid'', lr_sch = [(PyNum (1 / 2), 1)]\<rparr>"
    by (simp add: logs_or_empty_def two_callbacks_eq TrainCallbackList_on_epoch_end_def
        ReduceLROnPlateau_callback_def TrainCallback_base_def pass_def Let_def
        ReduceLROnPlateau_on_epoch_end_def getitem_def ReduceLROnPlateau_init_def
        lr_sch_step_def)
  ultimately show ?thesis using only only_raised by blast
qed

text \<open>
  C6, as stated, fails: with a ReduceLROnPlateau in "valid" mode registered before a
  second callback, and logs whose \<^verbatim>\<open>val_loss\<close> is None, the first callback raises
  ValueError and the second one is never called.
\<close>

theorem C6_raising_callback_stops_the_loop:
  "length (callbacks two_callbacks) = 2
   \<and> raised (TrainCallbackList_on_epoch_end two_callbacks 1
        (Some [(''step'', PyStr ''training''), (''val_loss'', PyNone)])
        (ReduceLROnPlateau_init ''valid''))
       = Some (ValueError ''ReduceLROnPlateau: No validation loss has been found'')
   \<and> map position (invoked (TrainCallbackList_on_epoch_end two_callbacks 1
        (Some [(''step'', PyStr ''training''), (''val_loss'', PyNone)])
        (ReduceLROnPlateau_init ''valid''))) = [0]"
  by (simp add: logs_or_empty_def two_callbacks_eq TrainCallbackList_on_epoch_end_def
      ReduceLROnPlateau_callback_def TrainCallback_base_def pass_def Let_def
      ReduceLROnPlateau_on_epoch_end_def getitem_def ReduceLROnPlateau_init_def lr_sch_step_def)

section \<open>Properties of BaseEncoder\<close>

lemma check_integrity_cases:
  "check_integrity enc df = Inr True \<or> (\<exists>k. check_integrity enc df = Inl (KeyError k))
   \<or> (\<exists>diff. check_integrity enc df = Inl (ColumnsMismatch diff))
   \<or> check_integrity enc df = Inl ColumnsOrder"
  by (auto simp: check_integrity_def Let_def split: option.splits)

lemma transform_encoding_error: "encoded enc X = Inl e \<Longrightarrow> transform enc X = Inl e"
  by (simp add: transform_def)

lemma filter_label_distinct:
  "distinct (map fst df) \<Longrightarrow> (col, s) \<in> set df \<Longrightarrow>
   filter (\<lambda>(c, s'). c = col) df = [(col, s)]"
proof (induction df)
  case Nil
  then show ?case by simp
next
  case (Cons p df)
  obtain c s' where p: "p = (c, s')" by (cases p)
  show ?case
  proof (cases "c = col")
    case True
    with Cons.prems p have "s' = s" and "\<forall>q \<in> set df. fst q \<noteq> col"
      by (auto simp: image_iff)
    then have "filter (\<lambda>(c, s'). c = col) df = []"
      by (auto simp: filter_empty_conv)
    with True p \<open>s' = s\<close> show ?thesis by simp
  next
    case False
    with Cons p show ?thesis by auto
  qed
qed

lemma is_numeric_dtype_at_distinct:
  "distinct (df_columns df) \<Longrightarrow> (col, s) \<in> set df \<Longrightarrow>
   is_numeric_dtype_at df col = is_numeric_dtype s"
  by (simp add: is_numeric_dtype_at_def df_columns_def filter_label_distinct)

lemma get_all_non_numeric_distinct:
  assumes "distinct (df_columns df)"
  shows "get_all_non_numeric df = map fst (filter (\<lambda>(col, s). \<not> is_numeric_dtype s) df)"
proof -
  have "filter (\<lambda>p. \<not> is_numeric_dtype_at df (fst p)) df
      = filter (\<lambda>(col, s). \<not> is_numeric_dtype s) df"
    by (rule filter_cong) (use is_numeric_dtype_at_distinct [OF assms] in auto)
  then show ?thesis
    by (simp add: get_all_non_numeric_def df_columns_def filter_map comp_def)
qed

lemma all_numeric_distinct:
  assumes "distinct (df_columns df)"
  shows "get_all_non_numeric df = [] \<longleftrightarrow> list_all (\<lambda>(col, s). is_numeric_dtype s) df"
  unfolding get_all_non_numeric_distinct [OF assms]
  by (induction df) auto

lemma repeated_label_is_reported:
  assumes "1 < length (filter (\<lambda>(c, s). c = col) df)"
  shows "col \<in> set (get_all_non_numeric df)"
proof -
  from assms have "\<not> is_numeric_dtype_at df col"
    by (auto simp: is_numeric_dtype_at_def split: list.splits)
  moreover from assms have "filter (\<lambda>(c, s). c = col) df \<noteq> []"
    by auto
  then have "col \<in> set (df_columns df)"
    by (force simp: filter_empty_conv df_columns_def)
  ultimately show ?thesis by (simp add: get_all_non_numeric_def)
qed

lemma encoded_people:
  "encoded tree_encoder people =
     Inr [(''city'', \<lparr>is_numeric_dtype = True, cells = [Num 2, Num 0]\<rparr>),
          (''age'', \<lparr>is_numeric_dtype = True, cells = [Num 36, Num 41]\<rparr>),
          (''name'', \<lparr>is_numeric_dtype = False, cells = [Str ''Ada'', Str ''Bob'']\<rparr>)]"
  by (simp add: encoded_def tree_encoder_def people_def select_columns_def df_columns_def)

lemma encoded_ages:
  "encoded tree_encoder ages =
     Inr [(''city'', \<lparr>is_numeric_dtype = True, cells = [Num 2, Num 0]\<rparr>),
          (''age'', \<lparr>is_numeric_dtype = True, cells = [Num 36, Num 41]\<rparr>)]"
  by (simp add: encoded_def tree_encoder_def ages_def select_columns_def df_columns_def)

lemma encoded_ages_refitted:
  "encoded (tree_encoder\<lparr>tfs_cols := Some [''city'', ''age'']\<rparr>) ages =
     Inr [(''city'', \<lparr>is_numeric_dtype = True, cells = [Num 2, Num 0]\<rparr>),
          (''age'', \<lparr>is_numeric_dtype = True, cells = [Num 36, Num 41]\<rparr>)]"
  by (simp add: encoded_def tree_encoder_def ages_def select_columns_def df_columns_def)

lemma repeated_feature_reported_non_numeric:
  "encoded age_twice_encoder ages =
     Inr [(''age'', \<lparr>is_numeric_dtype = True, cells = [Num 36, Num 41]\<rparr>),
          (''age'', \<lparr>is_numeric_dtype = True, cells = [Num 36, Num 41]\<rparr>)]
   \<and> transform age_twice_encoder ages = Inl (NotAllNumeric [''age'', ''age''])"
proof -
  have e: "encoded age_twice_encoder ages =
     Inr [(''age'', \<lparr>is_numeric_dtype = True, cells = [Num 36, Num 41]\<rparr>),
          (''age'', \<lparr>is_numeric_dtype = True, cells = [Num 36, Num 41]\<rparr>)]"
    by (simp add: encoded_def age_twice_encoder_def ages_def select_columns_def df_columns_def)
  have "transform age_twice_encoder ages = Inl (NotAllNumeric [''age'', ''age''])"
    unfolding transform_def e
    by (simp add: get_all_non_numeric_def is_numeric_dtype_at_def df_columns_def)
  with e show ?thesis by simp
qed

text \<open>
  C7. Let the first half of \<open>transform\<close> (selection of the columns, fixing of missing
  values, encoding of the categories, scaling) finish and give the frame \<open>df\<close>. The list
  \<open>get_all_non_numeric df\<close> holds the labels, in the order of the frame, at which
  \<^verbatim>\<open>is_numeric_dtype(df[col])\<close> is false. If it is not empty, \<open>transform\<close> raises the
  exception that carries this list. If it is empty, that exception is not raised; the
  frame is returned when the check for missing values (made with \<^verbatim>\<open>fix_missing\<close>) and
  the check of the columns against the fitted ones pass as well, and only then; whatever
  is returned is \<open>df\<close>. When the labels of \<open>df\<close> are distinct, the list is the labels of
  the columns whose dtype is not numeric, and it is empty exactly when every column is
  numeric.
\<close>

theorem C7_transform_numeric_check:
  assumes "encoded enc X = Inr df"
  shows "(get_all_non_numeric df \<noteq> [] \<longrightarrow>
            transform enc X = Inl (NotAllNumeric (get_all_non_numeric df)))
       \<and> (get_all_non_numeric df = [] \<longrightarrow>
            (\<forall>cols. transform enc X \<noteq> Inl (NotAllNumeric cols))
          \<and> (transform enc X = Inr df \<longleftrightarrow>
               \<not> (fix_missing enc \<and> nan_ratio_all df) \<and> check_integrity enc df = Inr True)
          \<and> (\<forall>d. transform enc X = Inr d \<longrightarrow> d = df))
       \<and> (distinct (df_columns df) \<longrightarrow>
            get_all_non_numeric df = map fst (filter (\<lambda>(col, s). \<not> is_numeric_dtype s) df)
          \<and> (get_all_non_numeric df = [] \<longleftrightarrow> list_all (\<lambda>(col, s). is_numeric_dtype s) df))"
proof (intro conjI impI)
  assume "get_all_non_numeric df \<noteq> []"
  with assms show "transform enc X = Inl (NotAllNumeric (get_all_non_numeric df))"
    by (simp add: transform_def)
next
  assume n: "get_all_non_numeric df = []"
  show "\<forall>cols. transform enc X \<noteq> Inl (NotAllNumeric cols)"
    using assms n check_integrity_cases [of enc df]
    by (auto simp: transform_def split: sum.splits)
  show "transform enc X = Inr df \<longleftrightarrow>
      \<not> (fix_missing enc \<and> nan_ratio_all df) \<and> check_integrity enc df = Inr True"
    using assms n check_integrity_cases [of enc df]
    by (auto simp: transform_def split: sum.splits)
  show "\<forall>d. transform enc X = Inr d \<longrightarrow> d = df"
    using assms n by (auto simp: transform_def split: sum.splits if_splits)
next
  assume d: "distinct (df_columns df)"
  show "get_all_non_numeric df = map fst (filter (\<lambda>(col, s). \<not> is_numeric_dtype s) df)"
    by (rule get_all_non_numeric_distinct [OF d])
  show "get_all_non_numeric df = [] \<longleftrightarrow> list_all (\<lambda>(col, s). is_numeric_dtype s) df"
    by (rule all_numeric_distinct [OF d])
qed

theorem C7_witness:
  "transform tree_encoder people = Inl (NotAllNumeric [''name''])
   \<and> transform (tree_encoder\<lparr>tfs_cols := Some [''city'', ''age'']\<rparr>) ages =
       Inr [(''city'', \<lparr>is_numeric_dtype = True, cells = [Num 2, Num 0]\<rparr>),
            (''age'', \<lparr>is_numeric_dtype = True, cells = [Num 36, Num 41]\<rparr>)]"
proof -
  let ?df1 = "[(''city'', \<lparr>is_numeric_dtype = True, cells = [Num 2, Num 0]\<rparr>),
          (''age'', \<lparr>is_numeric_dtype = True, cells = [Num 36, Num 41]\<rparr>),
          (''name'', \<lparr>is_numeric_dtype = False, cells = [Str ''Ada'', Str ''Bob'']\<rparr>)]"
  let ?df2 = "[(''city'', \<lparr>is_numeric_dtype = True, cells = [Num 2, Num 0]\<rparr>),
          (''age'', \<lparr>is_numeric_dtype = True, cells = [Num 36, Num 41]\<rparr>)]"
  let ?enc2 = "tree_encoder\<lparr>tfs_cols := Some [''city'', ''age'']\<rparr>"
  have d1: "distinct (df_columns ?df1)" and d2: "distinct (df_columns ?df2)"
    by (simp_all add: df_columns_def)
  note t1 = C7_transform_numeric_check [OF encoded_people]
  note t2 = C7_transform_numeric_check [OF encoded_ages_refitted]
  from t1 d1 have n1: "get_all_non_numeric ?df1 = [''name'']" by simp
  from t2 d2 have n2: "get_all_non_numeric ?df2 = []" by simp
  have ok: "\<not> (fix_missing ?enc2 \<and> nan_ratio_all ?df2) \<and> check_integrity ?enc2 ?df2 = Inr True"
    by (simp add: check_integrity_def df_columns_def tree_encoder_def)
  have "transform tree_encoder people = Inl (NotAllNumeric [''name''])"
    using t1 unfolding n1 by simp
  moreover have "transform ?enc2 ages = Inr ?df2"
    using t2 n2 ok by blast
  ultimately show ?thesis by simp
qed

text \<open>
  C7, as stated, fails: for the frame \<open>ages\<close>, which lacks a column the encoder was
  fitted with, every column is numeric after encoding, and yet \<open>transform\<close> does not
  return the frame: the integrity check raises.
\<close>

theorem C7_all_numeric_not_returned:
  "encoded tree_encoder ages =
     Inr [(''city'', \<lparr>is_numeric_dtype = True, cells = [Num 2, Num 0]\<rparr>),
          (''age'', \<lparr>is_numeric_dtype = True, cells = [Num 36, Num 41]\<rparr>)]
   \<and> transform tree_encoder ages = Inl (ColumnsMismatch {''name''})"
proof -
  have "transform tree_encoder ages = Inl (ColumnsMismatch {''name''})"
    unfolding transform_def encoded_ages
    by (simp add: get_all_non_numeric_def is_numeric_dtype_at_def check_integrity_def
        df_columns_def tree_encoder_def)
  then show ?thesis
    using encoded_ages by simp
qed

end
